theory Spec2Isabelle
  imports Main "HOL-Library.Word" "HOL-Library.Sublist"
begin

unbundle bit_operations_syntax

section \<open>Data model\<close>

text \<open>
  Byte strings (Python \<open>bytes\<close>) are lists of 8-bit words. A path is the sequence of
  bytes by which the operating system knows the name. Python holds such a name as a
  \<open>str\<close>: every UTF-8 sequence in it is one character, and every byte that belongs to no
  UTF-8 sequence is one lone surrogate, U+DC00 plus the byte (the file system encoding is
  taken to be UTF-8, its error handler is \<open>surrogateescape\<close>). \<open>os.walk\<close> yields such
  names for files whose names are not UTF-8.
\<close>

type_synonym byte = "8 word"
type_synonym bytes = "byte list"
type_synonym path = string

definition fs_bytes :: "string \<Rightarrow> bytes" where
  "fs_bytes s = map (\<lambda>c. of_char c) s"

subsection \<open>The characters of a name\<close>

text \<open>A continuation byte, and the second byte allowed after a lead byte \<open>b\<close>.\<close>

definition cont :: "char \<Rightarrow> bool" where
  "cont c = (128 \<le> (of_char c :: nat) \<and> (of_char c :: nat) \<le> 191)"

definition second3 :: "nat \<Rightarrow> char \<Rightarrow> bool" where
  "second3 b c =
     (if b = 224 then 160 \<le> (of_char c :: nat) \<and> (of_char c :: nat) \<le> 191
      else if b = 237 then 128 \<le> (of_char c :: nat) \<and> (of_char c :: nat) \<le> 159
      else cont c)"

definition second4 :: "nat \<Rightarrow> char \<Rightarrow> bool" where
  "second4 b c =
     (if b = 240 then 144 \<le> (of_char c :: nat) \<and> (of_char c :: nat) \<le> 191
      else if b = 244 then 128 \<le> (of_char c :: nat) \<and> (of_char c :: nat) \<le> 143
      else cont c)"

text \<open>
  The length of the UTF-8 sequence at the head of a name, 0 if there is none: no
  overlong form, no surrogate, nothing beyond U+10FFFF.
\<close>

fun utf8_head :: "string \<Rightarrow> nat" where
  "utf8_head [] = 0"
| "utf8_head (c # cs) =
     (let b = (of_char c :: nat) in
      if b < 128 then 1
      else if 194 \<le> b \<and> b \<le> 223 then
        (case cs of c1 # r \<Rightarrow> if cont c1 then 2 else 0 | _ \<Rightarrow> 0)
      else if 224 \<le> b \<and> b \<le> 239 then
        (case cs of c1 # c2 # r \<Rightarrow> if second3 b c1 \<and> cont c2 then 3 else 0 | _ \<Rightarrow> 0)
      else if 240 \<le> b \<and> b \<le> 244 then
        (case cs of c1 # c2 # c3 # r \<Rightarrow>
           if second4 b c1 \<and> cont c2 \<and> cont c3 then 4 else 0 | _ \<Rightarrow> 0)
      else 0)"

text \<open>
  The characters of the \<open>str\<close>: \<open>Inl\<close> the bytes of a character that UTF-8 encodes,
  \<open>Inr\<close> the byte that a lone surrogate stands for.
\<close>

function points :: "string \<Rightarrow> (string + char) list" where
  "points [] = []"
| "points (c # cs) =
     (let n = utf8_head (c # cs) in
      if n = 0 then Inr c # points cs
      else Inl (take n (c # cs)) # points (drop n (c # cs)))"
  by pat_completeness auto
termination
  by (relation "measure length") auto

definition utf8_valid :: "string \<Rightarrow> bool" where
  "utf8_valid s = list_all isl (points s)"

text \<open>The first run of surrogates in the \<open>str\<close>: where it starts and where it stops.\<close>

definition bad_start :: "string \<Rightarrow> nat" where
  "bad_start s = length (takeWhile isl (points s))"

definition bad_stop :: "string \<Rightarrow> nat" where
  "bad_stop s = bad_start s + length (takeWhile (\<lambda>x. \<not> isl x) (dropWhile isl (points s)))"

subsection \<open>Exceptions\<close>

text \<open>
  The exceptions the program can meet. An \<open>OSError\<close> has the error number, its text and
  the file name, and a second file name when the operation has two; Python raises the
  subclass that belongs to the number. A \<open>UnicodeEncodeError\<close> has the string and the
  bounds of the run that could not be encoded. \<open>ValueError\<close> is what the cipher library
  raises, with its message.
\<close>

datatype error =
    OSError nat string path "path option"
  | UnicodeEncodeError string nat nat
  | ValueError string

definition FileNotFoundError :: "path \<Rightarrow> error" where
  "FileNotFoundError p = OSError 2 ''No such file or directory'' p None"

definition IsADirectoryError :: "path \<Rightarrow> error" where
  "IsADirectoryError p = OSError 21 ''Is a directory'' p None"

text \<open>What \<open>except FileNotFoundError\<close> catches.\<close>

definition is_FileNotFoundError :: "error \<Rightarrow> bool" where
  "is_FileNotFoundError e = (case e of OSError n s p q \<Rightarrow> n = 2 | _ \<Rightarrow> False)"

text \<open>The message of the cipher library when a tag does not verify.\<close>

definition mac_check_failed :: error where
  "mac_check_failed = ValueError ''MAC check failed''"

text \<open>
  \<open>path.encode()\<close>: UTF-8, strict. It raises on the first surrogate, naming the run of
  surrogates that starts there.
\<close>

definition encode :: "string \<Rightarrow> error + bytes" where
  "encode s =
     (if utf8_valid s then Inr (fs_bytes s)
      else Inl (UnicodeEncodeError s (bad_start s) (bad_stop s)))"

subsection \<open>The text of an exception\<close>

fun decimal :: "nat \<Rightarrow> string" where
  "decimal n =
     (if n < 10 then [''0123456789'' ! n]
      else decimal (n div 10) @ [''0123456789'' ! (n mod 10)])"

definition hex2 :: "nat \<Rightarrow> string" where
  "hex2 b = [''0123456789abcdef'' ! (b div 16 mod 16), ''0123456789abcdef'' ! (b mod 16)]"

text \<open>
  \<open>repr\<close> of a \<open>str\<close>. The quote is the double one when the string has a single quote
  and no double one. Quote and backslash are escaped, tab, newline and return are
  written with their letters, other control characters and surrogates with their
  numbers. Every character beyond ASCII that UTF-8 encodes is taken to be printable.
\<close>

definition repr_char :: "char \<Rightarrow> char \<Rightarrow> string" where
  "repr_char q c =
     (if c = q \<or> c = CHR 0x5C then [CHR 0x5C, c]
      else if c = CHR 0x09 then [CHR 0x5C, CHR ''t'']
      else if c = CHR 0x0A then [CHR 0x5C, CHR ''n'']
      else if c = CHR 0x0D then [CHR 0x5C, CHR ''r'']
      else if (of_char c :: nat) < 32 \<or> (of_char c :: nat) = 127
        then [CHR 0x5C, CHR ''x''] @ hex2 (of_char c)
      else [c])"

definition repr_point :: "char \<Rightarrow> string + char \<Rightarrow> string" where
  "repr_point q x =
     (case x of
        Inl cs \<Rightarrow> (case cs of [c] \<Rightarrow> repr_char q c | _ \<Rightarrow> cs)
      | Inr c \<Rightarrow> [CHR 0x5C] @ ''udc'' @ hex2 (of_char c))"

definition py_repr :: "string \<Rightarrow> string" where
  "py_repr s =
     (let q = (if CHR 0x27 \<in> set s \<and> CHR 0x22 \<notin> set s then CHR 0x22 else CHR 0x27)
      in [q] @ concat (map (repr_point q) (points s)) @ [q])"

text \<open>\<open>str(e)\<close>, as the three exception classes define it.\<close>

definition str_error :: "error \<Rightarrow> string" where
  "str_error e =
     (case e of
        OSError n s p q \<Rightarrow>
          ''[Errno '' @ decimal n @ ''] '' @ s @ '': '' @ py_repr p @
          (case q of None \<Rightarrow> [] | Some p2 \<Rightarrow> '' -> '' @ py_repr p2)
      | UnicodeEncodeError obj start stop \<Rightarrow>
          (if stop = start + 1 then
             [CHR 0x27] @ ''utf-8'' @ [CHR 0x27] @ '' codec can't encode character '' @
             [CHR 0x27, CHR 0x5C] @ ''udc'' @
             (case drop start (points obj) of Inr c # r \<Rightarrow> hex2 (of_char c) | _ \<Rightarrow> []) @
             [CHR 0x27] @ '' in position '' @ decimal start @ '': surrogates not allowed''
           else
             [CHR 0x27] @ ''utf-8'' @ [CHR 0x27] @ '' codec can't encode characters in position '' @
             decimal start @ ''-'' @ decimal (stop - 1) @ '': surrogates not allowed'')
      | ValueError m \<Rightarrow> m)"

subsection \<open>The libraries the program calls\<close>

text \<open>
  \<open>hashlib\<close>, the cipher library and \<open>os.walk\<close> are not part of the program. They are
  parameters of the model: every function that calls one takes this record. The two
  ciphers take key, nonce and data and return ciphertext and tag, or raise; decryption
  takes key, nonce, ciphertext and tag. \<open>os_walk\<close> maps the directory tree and a root to
  the triples \<open>(dirpath, dirnames, filenames)\<close> it yields.
\<close>

datatype node = File bytes "32 word" | Dir

record library =
  sha256 :: "bytes \<Rightarrow> bytes"
  hmac_sha256 :: "bytes \<Rightarrow> bytes \<Rightarrow> bytes"
  gcm_encrypt :: "bytes \<Rightarrow> bytes \<Rightarrow> bytes \<Rightarrow> error + (bytes \<times> bytes)"
  gcm_decrypt :: "bytes \<Rightarrow> bytes \<Rightarrow> bytes \<Rightarrow> bytes \<Rightarrow> error + bytes"
  chacha_encrypt :: "bytes \<Rightarrow> bytes \<Rightarrow> bytes \<Rightarrow> error + (bytes \<times> bytes)"
  chacha_decrypt :: "bytes \<Rightarrow> bytes \<Rightarrow> bytes \<Rightarrow> bytes \<Rightarrow> error + bytes"
  os_walk :: "(path \<rightharpoonup> node) \<Rightarrow> path \<Rightarrow> (path \<times> string list \<times> string list) list"

subsection \<open>The world outside the process\<close>

text \<open>
  The file system maps a path to a regular file (contents and permission bits) or a
  directory; a file has one name. \<open>faulty\<close> is the environment's decision to fail an
  operation on a path for a reason the map does not show (permissions, a missing parent
  directory, a full disk); the operation then raises the \<open>OSError\<close> with the number and
  text that \<open>os_errno\<close> gives. \<open>get_random_bytes\<close> reads the next bytes of \<open>entropy\<close>.

  The log. \<open>logging.basicConfig\<close> opens the file \<open>CONFIG['logfile']\<close> for appending when
  the module is loaded, and the handler keeps that file open. \<open>logged\<close> is what the
  handler has been given since, level and message of each record. \<open>log_linked\<close> says that
  the handler's file is still the file of that name: then every record is also a line
  at the end of that file in \<open>files\<close>. \<open>asctime\<close> is the clock's text for the n-th record,
  \<open>stream_encode\<close> the encoder of the handler's stream.
\<close>

datatype io_op = Read | Write | Remove | Rename | Chmod

datatype level = INFO | ERROR

record world =
  files :: "path \<rightharpoonup> node"
  faulty :: "io_op \<Rightarrow> path \<Rightarrow> bool"
  os_errno :: "io_op \<Rightarrow> path \<Rightarrow> nat \<times> string"
  umask :: "32 word"
  logged :: "(level \<times> string) list"
  log_linked :: bool
  asctime :: "nat \<Rightarrow> string"
  stream_encode :: "string \<Rightarrow> bytes"
  entropy :: "nat \<Rightarrow> byte"
  drawn :: nat

text \<open>
  \<open>CONFIG\<close>, field by field; \<open>scrypt_params\<close> is used nowhere. The modes are octal in
  the source: 0o600 = 384, 0o666 = 438.
\<close>

definition CONFIG_keystore :: path where
  "CONFIG_keystore = ''/etc/.cryptokeys''"

definition CONFIG_logfile :: path where
  "CONFIG_logfile = ''/var/log/autocrypt.log''"

definition CONFIG_exclude :: "string list" where
  "CONFIG_exclude = [''/proc/'', ''/sys/'', ''/dev/'', ''/run/'', ''/boot/'', ''/etc/.cryptokeys'']"

definition CONFIG_extensions :: "string list" where
  "CONFIG_extensions = [''.enc'']"

definition CONFIG_algo :: string where
  "CONFIG_algo = ''AES-256-GCM''"

section \<open>Operations of the operating system and the standard library\<close>

definition get_random_bytes :: "nat \<Rightarrow> world \<Rightarrow> bytes \<times> world" where
  "get_random_bytes n w =
     (map (\<lambda>i. entropy w (drawn w + i)) [0..<n], w\<lparr>drawn := drawn w + n\<rparr>)"

text \<open>The exception of an operation that the environment refuses.\<close>

definition refused :: "world \<Rightarrow> io_op \<Rightarrow> path \<Rightarrow> path option \<Rightarrow> error" where
  "refused w op p q = (case os_errno w op p of (n, s) \<Rightarrow> OSError n s p q)"

text \<open>\<open>open(p, 'rb')\<close> followed by reading the whole file.\<close>

definition open_rb :: "world \<Rightarrow> path \<Rightarrow> error + bytes" where
  "open_rb w p =
     (if faulty w Read p then Inl (refused w Read p None)
      else case files w p of
        None \<Rightarrow> Inl (FileNotFoundError p)
      | Some Dir \<Rightarrow> Inl (IsADirectoryError p)
      | Some (File d m) \<Rightarrow> Inr d)"

text \<open>
  \<open>open(p, 'wb')\<close> followed by the writes: an existing file is truncated and keeps its
  permission bits, a new one gets 0o666 without the bits of the umask.
\<close>

definition open_wb :: "world \<Rightarrow> path \<Rightarrow> bytes \<Rightarrow> error + world" where
  "open_wb w p d =
     (if faulty w Write p then Inl (refused w Write p None)
      else case files w p of
        None \<Rightarrow> Inr (w\<lparr>files := (files w)(p \<mapsto> File d (438 AND NOT (umask w)))\<rparr>)
      | Some Dir \<Rightarrow> Inl (IsADirectoryError p)
      | Some (File d0 m) \<Rightarrow> Inr (w\<lparr>files := (files w)(p \<mapsto> File d m)\<rparr>))"

text \<open>
  \<open>os.remove(p)\<close>. When \<open>p\<close> is the log's name, the handler's file loses its name; the
  handler keeps writing to it, but no name leads to it any more.
\<close>

definition os_remove :: "world \<Rightarrow> path \<Rightarrow> error + world" where
  "os_remove w p =
     (if faulty w Remove p then Inl (refused w Remove p None)
      else case files w p of
        None \<Rightarrow> Inl (FileNotFoundError p)
      | Some Dir \<Rightarrow> Inl (IsADirectoryError p)
      | Some (File d m) \<Rightarrow>
          Inr (w\<lparr>files := (files w)(p := None),
                 log_linked := (log_linked w \<and> p \<noteq> CONFIG_logfile)\<rparr>))"

text \<open>
  \<open>os.rename(src, dst)\<close>: a file replaces a file; a directory is replaced by nothing
  here. A file put under the log's name takes that name from the handler's file. The
  program renames only names that end in \<open>.enc\<close> or \<open>.dec\<close>, which the log's name does
  not; a rename of the log file itself would take its name away too, and the model
  does not follow the file to its new name.
\<close>

definition os_rename :: "world \<Rightarrow> path \<Rightarrow> path \<Rightarrow> error + world" where
  "os_rename w src dst =
     (if faulty w Rename src then Inl (refused w Rename src (Some dst))
      else case files w src of
        None \<Rightarrow> Inl (OSError 2 ''No such file or directory'' src (Some dst))
      | Some n \<Rightarrow>
          (case files w dst of
             Some Dir \<Rightarrow>
               (if n = Dir then Inl (OSError 39 ''Directory not empty'' src (Some dst))
                else Inl (OSError 21 ''Is a directory'' src (Some dst)))
           | Some (File d m) \<Rightarrow>
               (if n = Dir then Inl (OSError 20 ''Not a directory'' src (Some dst))
                else Inr (w\<lparr>files := (files w)(src := None, dst \<mapsto> n),
                            log_linked := (log_linked w \<and> src \<noteq> CONFIG_logfile \<and>
                                           dst \<noteq> CONFIG_logfile)\<rparr>))
           | None \<Rightarrow>
               Inr (w\<lparr>files := (files w)(src := None, dst \<mapsto> n),
                      log_linked := (log_linked w \<and> src \<noteq> CONFIG_logfile \<and>
                                     dst \<noteq> CONFIG_logfile)\<rparr>)))"

definition os_chmod :: "world \<Rightarrow> path \<Rightarrow> 32 word \<Rightarrow> error + world" where
  "os_chmod w p m =
     (if faulty w Chmod p then Inl (refused w Chmod p None)
      else case files w p of
        None \<Rightarrow> Inl (FileNotFoundError p)
      | Some Dir \<Rightarrow> Inr w
      | Some (File d m0) \<Rightarrow> Inr (w\<lparr>files := (files w)(p \<mapsto> File d m)\<rparr>))"

definition os_path_isfile :: "world \<Rightarrow> path \<Rightarrow> bool" where
  "os_path_isfile w p = (case files w p of Some (File d m) \<Rightarrow> True | _ \<Rightarrow> False)"

definition os_path_exists :: "world \<Rightarrow> path \<Rightarrow> bool" where
  "os_path_exists w p = (files w p \<noteq> None)"

definition os_path_join :: "path \<Rightarrow> string \<Rightarrow> path" where
  "os_path_join a b =
     (if prefix ''/'' b then b
      else if a = [] \<or> suffix ''/'' a then a @ b
      else a @ ''/'' @ b)"

subsection \<open>Logging\<close>

text \<open>
  \<open>logging.basicConfig\<close> with the arguments of the source: the file is opened for
  appending, and created if it is not there.
\<close>

definition logging_basicConfig :: "world \<Rightarrow> error + world" where
  "logging_basicConfig w =
     (if faulty w Write CONFIG_logfile then Inl (refused w Write CONFIG_logfile None)
      else case files w CONFIG_logfile of
        None \<Rightarrow>
          Inr (w\<lparr>files := (files w)(CONFIG_logfile \<mapsto> File [] (438 AND NOT (umask w))),
                 log_linked := True\<rparr>)
      | Some Dir \<Rightarrow> Inl (IsADirectoryError CONFIG_logfile)
      | Some (File d m) \<Rightarrow> Inr (w\<lparr>log_linked := True\<rparr>))"

definition levelname :: "level \<Rightarrow> string" where
  "levelname l = (case l of INFO \<Rightarrow> ''INFO'' | ERROR \<Rightarrow> ''ERROR'')"

text \<open>The format of the source: \<open>%(asctime)s - %(levelname)s - %(message)s\<close>.\<close>

definition format_record :: "string \<Rightarrow> level \<Rightarrow> string \<Rightarrow> string" where
  "format_record t l msg = t @ '' - '' @ levelname l @ '' - '' @ msg"

text \<open>
  The handler writes the formatted record and a newline to its file. The record is in
  \<open>logged\<close> in any case; it is in \<open>files\<close> when the handler's file still has its name.
\<close>

definition emit :: "world \<Rightarrow> level \<Rightarrow> string \<Rightarrow> world" where
  "emit w l msg =
     (let line = format_record (asctime w (length (logged w))) l msg @ [CHR 0x0A];
          w1 = w\<lparr>logged := logged w @ [(l, msg)]\<rparr>
      in if log_linked w then
           (case files w CONFIG_logfile of
              Some (File d m) \<Rightarrow>
                w1\<lparr>files := (files w)(CONFIG_logfile \<mapsto> File (d @ stream_encode w line) m)\<rparr>
            | _ \<Rightarrow> w1)
         else w1)"

definition logging_info :: "world \<Rightarrow> string \<Rightarrow> world" where
  "logging_info w msg = emit w INFO msg"

definition logging_error :: "world \<Rightarrow> string \<Rightarrow> world" where
  "logging_error w msg = emit w ERROR msg"

section \<open>CryptoEngine\<close>

record engine =
  master_key :: bytes
  key_cache :: "path \<rightharpoonup> bytes"

text \<open>
  \<open>_init_keystore\<close>: only \<open>FileNotFoundError\<close> is handled; any other exception of the
  first \<open>open\<close>, and every exception of the handler, leaves the method.
\<close>

definition init_keystore :: "world \<Rightarrow> (error + bytes) \<times> world" where
  "init_keystore w =
     (case open_rb w CONFIG_keystore of
        Inr d \<Rightarrow> (Inr (take 32 d), w)
      | Inl e0 \<Rightarrow>
          (if is_FileNotFoundError e0 then
             (case get_random_bytes 32 w of (key, w1) \<Rightarrow>
                (case open_wb w1 CONFIG_keystore key of
                   Inl e \<Rightarrow> (Inl e, w1)
                 | Inr w2 \<Rightarrow>
                     (case os_chmod w2 CONFIG_keystore 384 of
                        Inl e \<Rightarrow> (Inl e, w2)
                      | Inr w3 \<Rightarrow> (Inr key, w3))))
           else (Inl e0, w)))"

definition CryptoEngine :: "world \<Rightarrow> (error + engine) \<times> world" where
  "CryptoEngine w =
     (case init_keystore w of
        (Inl e, w1) \<Rightarrow> (Inl e, w1)
      | (Inr k, w1) \<Rightarrow> (Inr \<lparr>master_key = k, key_cache = Map.empty\<rparr>, w1))"

text \<open>
  \<open>_derive_key\<close>. A cached key is returned before anything is encoded; otherwise
  \<open>path.encode()\<close> may raise, and then nothing is cached.
\<close>

definition derive_key :: "library \<Rightarrow> engine \<Rightarrow> path \<Rightarrow> (error + bytes) \<times> engine" where
  "derive_key lib self p =
     (case key_cache self p of
        Some k \<Rightarrow> (Inr k, self)
      | None \<Rightarrow>
          (case encode p of
             Inl e \<Rightarrow> (Inl e, self)
           | Inr bs \<Rightarrow>
               (let path_hash = sha256 lib bs;
                    key = hmac_sha256 lib (master_key self) path_hash
                in (Inr key, self\<lparr>key_cache := (key_cache self)(p \<mapsto> key)\<rparr>))))"

text \<open>An engine after any sequence of derivations, the only writes to the cache.\<close>

fun derive_all :: "library \<Rightarrow> engine \<Rightarrow> path list \<Rightarrow> engine" where
  "derive_all lib self [] = self"
| "derive_all lib self (p # ps) = derive_all lib (snd (derive_key lib self p)) ps"

text \<open>
  The invariant of the cache: it holds what derivation computes, for paths that could
  be encoded.
\<close>

definition cache_inv :: "library \<Rightarrow> engine \<Rightarrow> bool" where
  "cache_inv lib self =
     (\<forall>p k. key_cache self p = Some k \<longrightarrow>
        utf8_valid p \<and> k = hmac_sha256 lib (master_key self) (sha256 lib (fs_bytes p)))"

section \<open>Transforming one file\<close>

text \<open>
  The body of the \<open>try\<close> block of \<open>encrypt_file\<close>. It returns the exception that left the
  block, if any, with the engine and the world as they were at that moment: what the
  block had done before stays done.
\<close>

definition encrypt_file_try :: "library \<Rightarrow> path \<Rightarrow> engine \<times> world \<Rightarrow> error option \<times> engine \<times> world" where
  "encrypt_file_try lib p s =
     (case s of (self, w) \<Rightarrow>
        (case open_rb w p of
           Inl e \<Rightarrow> (Some e, self, w)
         | Inr data \<Rightarrow>
             (case derive_key lib self p of
                (Inl e, self1) \<Rightarrow> (Some e, self1, w)
              | (Inr key, self1) \<Rightarrow>
                (case get_random_bytes 12 w of (nonce, w1) \<Rightarrow>
                   (case (if CONFIG_algo = ''AES-256-GCM''
                          then gcm_encrypt lib key nonce data
                          else chacha_encrypt lib key nonce data) of
                      Inl e \<Rightarrow> (Some e, self1, w1)
                    | Inr (ciphertext, tag) \<Rightarrow>
                        (case open_wb w1 (p @ ''.enc'') (nonce @ tag @ ciphertext) of
                           Inl e \<Rightarrow> (Some e, self1, w1)
                         | Inr w2 \<Rightarrow>
                             (case os_remove w2 p of
                                Inl e \<Rightarrow> (Some e, self1, w2)
                              | Inr w3 \<Rightarrow>
                                  (case os_rename w3 (p @ ''.enc'') p of
                                     Inl e \<Rightarrow> (Some e, self1, w3)
                                   | Inr w4 \<Rightarrow>
                                       (None, self1, logging_info w4 (''Encrypted '' @ p))))))))))"

text \<open>\<open>encrypt_file\<close>: the \<open>try\<close> block and its \<open>except Exception\<close> handler.\<close>

definition encrypt_file :: "library \<Rightarrow> path \<Rightarrow> engine \<times> world \<Rightarrow> engine \<times> world" where
  "encrypt_file lib p s =
     (case encrypt_file_try lib p s of
        (None, self1, w1) \<Rightarrow> (self1, w1)
      | (Some e, self1, w1) \<Rightarrow> (self1, logging_error w1 (''Failed '' @ p @ '': '' @ str_error e)))"

text \<open>\<open>f.read(n)\<close> on the rest of an open file: at most \<open>n\<close> bytes, and what is left.\<close>

definition f_read :: "nat \<Rightarrow> bytes \<Rightarrow> bytes \<times> bytes" where
  "f_read n buf = (take n buf, drop n buf)"

text \<open>The three reads of \<open>decrypt_file\<close>: nonce, tag, ciphertext.\<close>

definition read_container :: "bytes \<Rightarrow> bytes \<times> bytes \<times> bytes" where
  "read_container c =
     (case f_read 12 c of (nonce, r1) \<Rightarrow>
        (case f_read 16 r1 of (tag, r2) \<Rightarrow> (nonce, tag, r2)))"

definition decrypt_file_try :: "library \<Rightarrow> path \<Rightarrow> engine \<times> world \<Rightarrow> error option \<times> engine \<times> world" where
  "decrypt_file_try lib p s =
     (case s of (self, w) \<Rightarrow>
        (case open_rb w p of
           Inl e \<Rightarrow> (Some e, self, w)
         | Inr c \<Rightarrow>
             (case read_container c of (nonce, tag, ciphertext) \<Rightarrow>
                (case derive_key lib self p of
                   (Inl e, self1) \<Rightarrow> (Some e, self1, w)
                 | (Inr key, self1) \<Rightarrow>
                   (case (if CONFIG_algo = ''AES-256-GCM''
                          then gcm_decrypt lib key nonce ciphertext tag
                          else chacha_decrypt lib key nonce ciphertext tag) of
                      Inl e \<Rightarrow> (Some e, self1, w)
                    | Inr data \<Rightarrow>
                        (case open_wb w (p @ ''.dec'') data of
                           Inl e \<Rightarrow> (Some e, self1, w)
                         | Inr w2 \<Rightarrow>
                             (case os_remove w2 p of
                                Inl e \<Rightarrow> (Some e, self1, w2)
                              | Inr w3 \<Rightarrow>
                                  (case os_rename w3 (p @ ''.dec'') p of
                                     Inl e \<Rightarrow> (Some e, self1, w3)
                                   | Inr w4 \<Rightarrow>
                                       (None, self1, logging_info w4 (''Decrypted '' @ p))))))))))"

definition decrypt_file :: "library \<Rightarrow> path \<Rightarrow> engine \<times> world \<Rightarrow> engine \<times> world" where
  "decrypt_file lib p s =
     (case decrypt_file_try lib p s of
        (None, self1, w1) \<Rightarrow> (self1, w1)
      | (Some e, self1, w1) \<Rightarrow> (self1, logging_error w1 (''Failed '' @ p @ '': '' @ str_error e)))"

section \<open>Selection and the walk\<close>

definition should_encrypt :: "world \<Rightarrow> path \<Rightarrow> bool" where
  "should_encrypt w p =
     (if list_ex (\<lambda>ex. prefix ex p) CONFIG_exclude then False
      else if list_ex (\<lambda>ex. suffix ex p) CONFIG_extensions then False
      else os_path_isfile w p)"

text \<open>The inner loop of \<open>process_filesystem\<close>, over the file names of one directory.\<close>

fun files_loop :: "library \<Rightarrow> path \<Rightarrow> string list \<Rightarrow> engine \<times> world \<Rightarrow> engine \<times> world" where
  "files_loop lib dirpath [] s = s"
| "files_loop lib dirpath (f # fs) s =
     (let p = os_path_join dirpath f
      in files_loop lib dirpath fs (if should_encrypt (snd s) p then encrypt_file lib p s else s))"

text \<open>The outer loop, over the triples of \<open>os.walk\<close>.\<close>

fun walk_loop :: "library \<Rightarrow> (path \<times> string list \<times> string list) list \<Rightarrow> engine \<times> world \<Rightarrow> engine \<times> world" where
  "walk_loop lib [] s = s"
| "walk_loop lib ((dirpath, dirnames, filenames) # rest) s =
     walk_loop lib rest (files_loop lib dirpath filenames s)"

text \<open>
  \<open>process_filesystem\<close>: an exception of the constructor is not handled here, so it
  leaves the function. The triples are those of the tree as it is when the walk starts:
  \<open>os.walk\<close> lists a directory completely before it yields it, and \<open>encrypt_file\<close>
  creates and removes names in that directory only.
\<close>

definition process_filesystem :: "library \<Rightarrow> path \<Rightarrow> world \<Rightarrow> error option \<times> world" where
  "process_filesystem lib root w =
     (case CryptoEngine w of
        (Inl e, w1) \<Rightarrow> (Some e, w1)
      | (Inr crypto, w1) \<Rightarrow>
          (None, snd (walk_loop lib (os_walk lib (files w1) root) (crypto, w1))))"

fun lock_system_loop :: "library \<Rightarrow> path list \<Rightarrow> world \<Rightarrow> error option \<times> world" where
  "lock_system_loop lib [] w = (None, w)"
| "lock_system_loop lib (root # roots) w =
     (if os_path_exists w root
      then (case process_filesystem lib root w of
              (Some e, w1) \<Rightarrow> (Some e, w1)
            | (None, w1) \<Rightarrow> lock_system_loop lib roots w1)
      else lock_system_loop lib roots w)"

definition lock_system :: "library \<Rightarrow> world \<Rightarrow> error option \<times> world" where
  "lock_system lib w = lock_system_loop lib [''/home'', ''/var'', ''/opt''] w"

fun unlock_system_loop :: "library \<Rightarrow> path list \<Rightarrow> world \<Rightarrow> error option \<times> world" where
  "unlock_system_loop lib [] w = (None, w)"
| "unlock_system_loop lib (root # roots) w =
     (if os_path_exists w root
      then (case process_filesystem lib root w of
              (Some e, w1) \<Rightarrow> (Some e, w1)
            | (None, w1) \<Rightarrow> unlock_system_loop lib roots w1)
      else unlock_system_loop lib roots w)"

definition unlock_system :: "library \<Rightarrow> world \<Rightarrow> error option \<times> world" where
  "unlock_system lib w = unlock_system_loop lib [''/home'', ''/var'', ''/opt''] w"

text \<open>The script's entry: \<open>argv\<close> is \<open>sys.argv\<close>.\<close>

definition main :: "library \<Rightarrow> string list \<Rightarrow> world \<Rightarrow> error option \<times> world" where
  "main lib argv w =
     (if length argv > 1 \<and> argv ! 1 = ''--unlock'' then unlock_system lib w
      else lock_system lib w)"

text \<open>The paths a walk hands to \<open>should_encrypt\<close>, in order.\<close>

definition walk_paths :: "(path \<times> string list \<times> string list) list \<Rightarrow> path list" where
  "walk_paths ts = concat (map (\<lambda>(dirpath, dirnames, filenames). map (os_path_join dirpath) filenames) ts)"

text \<open>The body of the inner loop for one path.\<close>

definition visit :: "library \<Rightarrow> engine \<times> world \<Rightarrow> path \<Rightarrow> engine \<times> world" where
  "visit lib s p = (if should_encrypt (snd s) p then encrypt_file lib p s else s)"

text \<open>What a log record says of a path that was handed to \<open>encrypt_file\<close>.\<close>

definition outcome :: "path \<Rightarrow> level \<times> string \<Rightarrow> bool" where
  "outcome p r = (r = (INFO, ''Encrypted '' @ p) \<or>
     (\<exists>e. r = (ERROR, ''Failed '' @ p @ '': '' @ str_error e)))"

section \<open>What the proofs assume of the libraries\<close>

text \<open>
  HMAC-SHA256 returns 32 bytes for any key. AES-GCM, given a 32-byte key and a 12-byte
  nonce, encrypts any data to a ciphertext of the same length and a 16-byte tag, and
  decrypting that ciphertext with that tag gives the data back.
\<close>

definition library_ok :: "library \<Rightarrow> bool" where
  "library_ok lib =
     ((\<forall>k m. length (hmac_sha256 lib k m) = 32) \<and>
      (\<forall>k n m. length k = 32 \<and> length n = 12 \<longrightarrow>
         (\<exists>ct tag. gcm_encrypt lib k n m = Inr (ct, tag) \<and> length ct = length m \<and>
            length tag = 16 \<and> gcm_decrypt lib k n ct tag = Inr m)))"

definition fault_free :: "world \<Rightarrow> bool" where
  "fault_free w = (\<forall>op p. \<not> faulty w op p)"

text \<open>
  AES-GCM verifies a tag of 16 bytes: a tag of any other length is rejected with a
  \<open>ValueError\<close>, whatever key, nonce and ciphertext are.
\<close>

definition tag16 :: "library \<Rightarrow> bool" where
  "tag16 lib =
     (\<forall>k n ct t. length t \<noteq> 16 \<longrightarrow> (\<exists>msg. gcm_decrypt lib k n ct t = Inl (ValueError msg)))"

section \<open>The decoding as the specification words it\<close>

text \<open>
  The specification describes a decoder that rejects short input. It is written down
  here in the specification's words, to be compared with \<open>read_container\<close>.
\<close>

datatype container_error = MalformedContainer

definition spec_decode :: "bytes \<Rightarrow> container_error + (bytes \<times> bytes \<times> bytes)" where
  "spec_decode c =
     (if length c < 28 then Inl MalformedContainer
      else Inr (take 12 c, take 16 (drop 12 c), drop 28 c))"

section \<open>A small instance\<close>

text \<open>
  A library that meets \<open>library_ok\<close> and \<open>tag16\<close>, and a world with a few files, on which
  the theorems are instantiated. The cipher adds one to every byte; its tag is the first
  16 bytes of ciphertext, nonce and padding, and decryption compares the tag before it
  returns.
\<close>

definition demo_tag :: "bytes \<Rightarrow> bytes \<Rightarrow> bytes" where
  "demo_tag n ct = take 16 (ct @ n @ replicate 16 0)"

definition demo_encrypt :: "bytes \<Rightarrow> bytes \<Rightarrow> bytes \<Rightarrow> error + (bytes \<times> bytes)" where
  "demo_encrypt k n m =
     (if n = [] then Inl (ValueError ''Nonce cannot be empty'')
      else if length k \<noteq> 32 then Inl (ValueError ''Incorrect AES key length'')
      else Inr (map (\<lambda>b. b + 1) m, demo_tag n (map (\<lambda>b. b + 1) m)))"

definition demo_decrypt :: "bytes \<Rightarrow> bytes \<Rightarrow> bytes \<Rightarrow> bytes \<Rightarrow> error + bytes" where
  "demo_decrypt k n ct t =
     (if n = [] then Inl (ValueError ''Nonce cannot be empty'')
      else if length k \<noteq> 32 then Inl (ValueError ''Incorrect AES key length'')
      else if t = demo_tag n ct then Inr (map (\<lambda>b. b - 1) ct)
      else Inl mac_check_failed)"

definition demo_walk :: "(path \<rightharpoonup> node) \<Rightarrow> path \<Rightarrow> (path \<times> string list \<times> string list) list" where
  "demo_walk fs root =
     (if root = ''/home'' then [(''/home'', [''d''], [''a'', ''b'', ''e''])] else [])"

definition demo_library :: library where
  "demo_library =
     \<lparr>sha256 = (\<lambda>m. replicate 32 (of_nat (length m))),
      hmac_sha256 = (\<lambda>k m. replicate 32 (of_nat (length k))),
      gcm_encrypt = demo_encrypt,
      gcm_decrypt = demo_decrypt,
      chacha_encrypt = demo_encrypt,
      chacha_decrypt = demo_decrypt,
      os_walk = demo_walk\<rparr>"

definition demo_engine :: engine where
  "demo_engine = \<lparr>master_key = [7, 7, 7], key_cache = Map.empty\<rparr>"

text \<open>
  \<open>/home/a\<close> holds three bytes, \<open>/home/e\<close> none, \<open>/home/b\<close> 27 zero bytes, \<open>/home/d\<close> is a
  directory; there is no keystore. The log file is there and empty, and the handler has
  it open. Modes 0o644 = 420 and umask 0o022 = 18. A refused operation reports
  \<open>EACCES\<close>.
\<close>

definition demo_world :: world where
  "demo_world =
     \<lparr>files = [''/home'' \<mapsto> Dir, ''/home/d'' \<mapsto> Dir, ''/home/a'' \<mapsto> File [1, 2, 3] 420,
               ''/home/e'' \<mapsto> File [] 420, ''/home/b'' \<mapsto> File (replicate 27 0) 420,
               ''/var/log/autocrypt.log'' \<mapsto> File [] 420],
      faulty = (\<lambda>op p. False),
      os_errno = (\<lambda>op p. (13, ''Permission denied'')),
      umask = 18,
      logged = [],
      log_linked = True,
      asctime = (\<lambda>n. ''2026-11-03 14:00:00,000''),
      stream_encode = fs_bytes,
      entropy = (\<lambda>i. of_nat i),
      drawn = 0\<rparr>"

text \<open>The same world with a keystore of three bytes.\<close>

definition short_keystore_world :: world where
  "short_keystore_world =
     demo_world\<lparr>files := (files demo_world)(CONFIG_keystore \<mapsto> File [7, 7, 7] 384)\<rparr>"

text \<open>
  \<open>/home/a\<close> replaced by the container that \<open>encrypt_file\<close> writes for it under the demo
  library (nonce 0..11, tag, ciphertext 2 3 4), with the lowest bit of the first tag byte
  flipped: 2 became 3.
\<close>

definition tampered_container :: bytes where
  "tampered_container =
     [0, 1, 2, 3, 4, 5, 6, 7, 8, 9, 10, 11] @
     [3, 3, 4, 0, 1, 2, 3, 4, 5, 6, 7, 8, 9, 10, 11, 0] @
     [2, 3, 4]"

definition tampered_world :: world where
  "tampered_world =
     demo_world\<lparr>files := (files demo_world)(''/home/a'' \<mapsto> File tampered_container 420)\<rparr>"

text \<open>The demo world with that container as the content of the log file.\<close>

definition logfile_world :: world where
  "logfile_world =
     demo_world\<lparr>files := (files demo_world)(CONFIG_logfile \<mapsto> File tampered_container 420)\<rparr>"

text \<open>The demo world with a keystore of 40 bytes.\<close>

definition long_keystore_world :: world where
  "long_keystore_world =
     demo_world\<lparr>files := (files demo_world)(CONFIG_keystore \<mapsto> File (replicate 40 9) 384)\<rparr>"

text \<open>The world with the short keystore where reading \<open>/home/b\<close> is refused.\<close>

definition faulty_world :: world where
  "faulty_world = short_keystore_world\<lparr>faulty := (\<lambda>op p. op = Read \<and> p = ''/home/b'')\<rparr>"

text \<open>A name with a byte that belongs to no UTF-8 sequence.\<close>

definition bad_name :: path where
  "bad_name = ''/home/'' @ [CHR 0xFF]"

text \<open>The demo world with a file whose name ends in that byte.\<close>

definition bad_name_world :: world where
  "bad_name_world = demo_world\<lparr>files := (files demo_world)(bad_name \<mapsto> File [1, 2, 3] 420)\<rparr>"

text \<open>
  What \<open>encrypt_file\<close> writes for the three bytes of \<open>/home/a\<close> under the demo library,
  and the demo world with that container at \<open>/home/a\<close>.
\<close>

definition good_container :: bytes where
  "good_container =
     [0, 1, 2, 3, 4, 5, 6, 7, 8, 9, 10, 11] @
     [2, 3, 4, 0, 1, 2, 3, 4, 5, 6, 7, 8, 9, 10, 11, 0] @
     [2, 3, 4]"

definition container_world :: world where
  "container_world =
     demo_world\<lparr>files := (files demo_world)(''/home/a'' \<mapsto> File good_container 420)\<rparr>"

section \<open>Encoding\<close>

lemma encode_valid: "utf8_valid p \<Longrightarrow> encode p = Inr (fs_bytes p)"
  by (simp add: encode_def)

lemma encode_invalid:
  "\<not> utf8_valid p \<Longrightarrow> encode p = Inl (UnicodeEncodeError p (bad_start p) (bad_stop p))"
  by (simp add: encode_def)

lemma encode_Inr: "encode p = Inr bs \<longleftrightarrow> utf8_valid p \<and> bs = fs_bytes p"
  by (auto simp add: encode_def)

section \<open>Key derivation\<close>

lemma cache_inv_empty: "cache_inv lib \<lparr>master_key = m, key_cache = Map.empty\<rparr>"
  by (simp add: cache_inv_def)

lemma derive_key_master: "master_key (snd (derive_key lib self p)) = master_key self"
  by (simp add: derive_key_def Let_def split: option.splits sum.splits)

lemma derive_key_inv: "cache_inv lib self \<Longrightarrow> cache_inv lib (snd (derive_key lib self p))"
  by (auto simp add: cache_inv_def derive_key_def Let_def encode_Inr split: option.splits sum.splits)

lemma derive_key_value:
  "cache_inv lib self \<Longrightarrow> utf8_valid p \<Longrightarrow>
   fst (derive_key lib self p) = Inr (hmac_sha256 lib (master_key self) (sha256 lib (fs_bytes p)))"
  by (auto simp add: cache_inv_def derive_key_def Let_def encode_valid split: option.splits)

lemma derive_key_invalid:
  "cache_inv lib self \<Longrightarrow> \<not> utf8_valid p \<Longrightarrow>
   derive_key lib self p = (Inl (UnicodeEncodeError p (bad_start p) (bad_stop p)), self)"
proof -
  assume inv: "cache_inv lib self" and nv: "\<not> utf8_valid p"
  have "key_cache self p = None"
  proof (cases "key_cache self p")
    case (Some k)
    with inv have "utf8_valid p" unfolding cache_inv_def by blast
    with nv show ?thesis by simp
  qed simp
  then show ?thesis using nv by (simp add: derive_key_def encode_invalid)
qed

lemma derive_key_cached:
  "fst (derive_key lib self p) = Inr k \<Longrightarrow> key_cache (snd (derive_key lib self p)) p = Some k"
  by (auto simp add: derive_key_def Let_def split: option.splits sum.splits)

lemma derive_key_again:
  "derive_key lib (snd (derive_key lib self p)) p = (fst (derive_key lib self p), snd (derive_key lib self p))"
  by (simp add: derive_key_def Let_def split: option.splits sum.splits)

lemma derive_all_master: "master_key (derive_all lib self ps) = master_key self"
  by (induction ps arbitrary: self) (simp_all add: derive_key_master)

lemma derive_all_inv: "cache_inv lib self \<Longrightarrow> cache_inv lib (derive_all lib self ps)"
  by (induction ps arbitrary: self) (simp_all add: derive_key_inv)

section \<open>The log\<close>

lemma logfile_not_temp: "p @ ''.enc'' \<noteq> CONFIG_logfile" "p @ ''.dec'' \<noteq> CONFIG_logfile"
proof -
  have "last (p @ ''.enc'') \<noteq> last CONFIG_logfile" by (simp add: CONFIG_logfile_def)
  then show "p @ ''.enc'' \<noteq> CONFIG_logfile" by (rule contrapos_nn) simp
  have "last (p @ ''.dec'') \<noteq> last CONFIG_logfile" by (simp add: CONFIG_logfile_def)
  then show "p @ ''.dec'' \<noteq> CONFIG_logfile" by (rule contrapos_nn) simp
qed

lemma emit_logged: "logged (emit w l msg) = logged w @ [(l, msg)]"
  by (simp add: emit_def Let_def split: option.splits node.splits)

lemma emit_faulty: "faulty (emit w l msg) = faulty w"
  by (simp add: emit_def Let_def split: option.splits node.splits)

lemma emit_files_other: "q \<noteq> CONFIG_logfile \<Longrightarrow> files (emit w l msg) q = files w q"
  by (simp add: emit_def Let_def split: option.splits node.splits)

lemma emit_files_unlinked: "\<not> log_linked w \<Longrightarrow> files (emit w l msg) = files w"
  by (simp add: emit_def Let_def)

lemma emit_isfile: "os_path_isfile (emit w l msg) q = os_path_isfile w q"
  by (simp add: emit_def Let_def os_path_isfile_def split: option.splits node.splits)

lemma emit_files_linked:
  "log_linked w \<Longrightarrow> files w CONFIG_logfile = Some (File d m) \<Longrightarrow>
   files (emit w l msg) CONFIG_logfile =
     Some (File (d @ stream_encode w (format_record (asctime w (length (logged w))) l msg @ [CHR 0x0A])) m)"
  by (simp add: emit_def Let_def)

section \<open>One file\<close>

lemma get_random_bytes_length: "length (fst (get_random_bytes n w)) = n"
  by (simp add: get_random_bytes_def)

lemma get_random_bytes_world:
  "files (snd (get_random_bytes n w)) = files w"
  "faulty (snd (get_random_bytes n w)) = faulty w"
  "umask (snd (get_random_bytes n w)) = umask w"
  "logged (snd (get_random_bytes n w)) = logged w"
  "log_linked (snd (get_random_bytes n w)) = log_linked w"
  by (simp_all add: get_random_bytes_def)

lemma algo_gcm: "(CONFIG_algo = ''AES-256-GCM'') = True"
  by (simp add: CONFIG_algo_def)

lemma read_container_eq: "read_container c = (take 12 c, take 16 (drop 12 c), drop 28 c)"
  by (simp add: read_container_def f_read_def)

lemma read_container_frame:
  "length n = 12 \<Longrightarrow> length t = 16 \<Longrightarrow> read_container (n @ t @ ct) = (n, t, ct)"
  by (simp add: read_container_eq)

lemma encrypt_file_success:
  assumes lib: "library_ok lib" and inv: "cache_inv lib self" and ff: "fault_free w"
    and f: "files w p = Some (File m md)" and nd: "files w (p @ ''.enc'') \<noteq> Some Dir"
    and v: "utf8_valid p"
  defines "key \<equiv> hmac_sha256 lib (master_key self) (sha256 lib (fs_bytes p))"
    and "nonce \<equiv> fst (get_random_bytes 12 w)"
  shows "\<exists>ct tag md'.
           gcm_encrypt lib key nonce m = Inr (ct, tag) \<and> length ct = length m \<and> length tag = 16 \<and>
           gcm_decrypt lib key nonce ct tag = Inr m \<and>
           fst (encrypt_file lib p (self, w)) = snd (derive_key lib self p) \<and>
           files (snd (encrypt_file lib p (self, w))) p = Some (File (nonce @ tag @ ct) md') \<and>
           files (snd (encrypt_file lib p (self, w))) (p @ ''.dec'') = files w (p @ ''.dec'') \<and>
           faulty (snd (encrypt_file lib p (self, w))) = faulty w \<and>
           logged (snd (encrypt_file lib p (self, w))) = logged w @ [(INFO, ''Encrypted '' @ p)]"
proof -
  have k: "fst (derive_key lib self p) = Inr key"
    using inv v by (simp add: derive_key_value key_def)
  have lk: "length key = 32" using lib by (simp add: library_ok_def key_def)
  have ln: "length nonce = 12" by (simp add: nonce_def get_random_bytes_length)
  from lib lk ln obtain ct tag where
    e: "gcm_encrypt lib key nonce m = Inr (ct, tag)" and lc: "length ct = length m"
    and lt: "length tag = 16" and d: "gcm_decrypt lib key nonce ct tag = Inr m"
    unfolding library_ok_def by blast
  obtain self1 where dk: "derive_key lib self p = (Inr key, self1)"
    using k by (cases "derive_key lib self p") simp
  obtain w1 where g: "get_random_bytes 12 w = (nonce, w1)"
    by (cases "get_random_bytes 12 w") (simp add: nonce_def)
  have w1: "files w1 = files w" "faulty w1 = faulty w" "logged w1 = logged w"
    "log_linked w1 = log_linked w"
    using get_random_bytes_world[of 12 w] g by simp_all
  have nf: "\<And>op q. \<not> faulty w op q" using ff by (simp add: fault_free_def)
  define md' where "md' = (case files w (p @ ''.enc'') of
      Some (File d0 m0) \<Rightarrow> m0 | _ \<Rightarrow> 438 AND NOT (umask w1))"
  define w4 where "w4 = w1\<lparr>files := (files w)(p @ ''.enc'' := None, p \<mapsto> File (nonce @ tag @ ct) md'),
      log_linked := (log_linked w \<and> p \<noteq> CONFIG_logfile)\<rparr>"
  have upd: "((files w)(p @ ''.enc'' \<mapsto> x))(p := None, p @ ''.enc'' := None, p \<mapsto> y)
      = (files w)(p @ ''.enc'' := None, p \<mapsto> y)" for x y
    by (auto simp add: fun_eq_iff)
  have t: "encrypt_file_try lib p (self, w) = (None, self1, logging_info w4 (''Encrypted '' @ p))"
  proof (cases "files w (p @ ''.enc'')")
    case None
    then show ?thesis using e dk g w1 nf f logfile_not_temp(1)[of p]
      by (simp add: encrypt_file_try_def open_rb_def open_wb_def os_remove_def
          os_rename_def algo_gcm w4_def md'_def upd)
  next
    case (Some n)
    then obtain d0 m0 where n: "n = File d0 m0" using nd by (cases n) auto
    then show ?thesis using Some e dk g w1 nf f logfile_not_temp(1)[of p]
      by (simp add: encrypt_file_try_def open_rb_def open_wb_def os_remove_def
          os_rename_def algo_gcm w4_def md'_def upd)
  qed
  have r: "encrypt_file lib p (self, w) = (self1, emit w4 INFO (''Encrypted '' @ p))"
    by (simp add: encrypt_file_def t logging_info_def)
  have fp: "files (emit w4 INFO (''Encrypted '' @ p)) p = Some (File (nonce @ tag @ ct) md')"
  proof (cases "p = CONFIG_logfile")
    case True
    then have "\<not> log_linked w4" by (simp add: w4_def)
    then show ?thesis by (simp add: emit_files_unlinked) (simp add: w4_def)
  next
    case False
    then show ?thesis by (simp add: emit_files_other) (simp add: w4_def)
  qed
  have fd: "files (emit w4 INFO (''Encrypted '' @ p)) (p @ ''.dec'') = files w (p @ ''.dec'')"
    using logfile_not_temp(2)[of p] by (simp add: emit_files_other) (simp add: w4_def)
  have fl: "faulty (emit w4 INFO (''Encrypted '' @ p)) = faulty w"
    by (simp add: emit_faulty) (simp add: w4_def w1)
  have lg: "logged (emit w4 INFO (''Encrypted '' @ p)) = logged w @ [(INFO, ''Encrypted '' @ p)]"
    by (simp add: emit_logged) (simp add: w4_def w1)
  show ?thesis using e lc lt d dk r fp fd fl lg by auto
qed

lemma decrypt_file_success:
  assumes ff: "fault_free w" and f: "files w p = Some (File c md)"
    and rc: "read_container c = (n, t, ct)"
    and dk: "derive_key lib self p = (Inr key, self1)"
    and d: "gcm_decrypt lib key n ct t = Inr m"
    and nd: "files w (p @ ''.dec'') \<noteq> Some Dir"
  shows "\<exists>md'. fst (decrypt_file lib p (self, w)) = self1 \<and>
           files (snd (decrypt_file lib p (self, w))) p = Some (File m md') \<and>
           faulty (snd (decrypt_file lib p (self, w))) = faulty w \<and>
           logged (snd (decrypt_file lib p (self, w))) = logged w @ [(INFO, ''Decrypted '' @ p)]"
proof -
  have nf: "\<And>op q. \<not> faulty w op q" using ff by (simp add: fault_free_def)
  define md' where "md' = (case files w (p @ ''.dec'') of
      Some (File d0 m0) \<Rightarrow> m0 | _ \<Rightarrow> 438 AND NOT (umask w))"
  define w4 where "w4 = w\<lparr>files := (files w)(p @ ''.dec'' := None, p \<mapsto> File m md'),
      log_linked := (log_linked w \<and> p \<noteq> CONFIG_logfile)\<rparr>"
  have upd: "((files w)(p @ ''.dec'' \<mapsto> x))(p := None, p @ ''.dec'' := None, p \<mapsto> y)
      = (files w)(p @ ''.dec'' := None, p \<mapsto> y)" for x y
    by (auto simp add: fun_eq_iff)
  have t: "decrypt_file_try lib p (self, w) = (None, self1, logging_info w4 (''Decrypted '' @ p))"
  proof (cases "files w (p @ ''.dec'')")
    case None
    then show ?thesis using rc dk d nf f logfile_not_temp(2)[of p]
      by (simp add: decrypt_file_try_def open_rb_def open_wb_def os_remove_def
          os_rename_def algo_gcm w4_def md'_def upd)
  next
    case (Some x)
    then obtain d0 m0 where "x = File d0 m0" using nd by (cases x) auto
    then show ?thesis using Some rc dk d nf f logfile_not_temp(2)[of p]
      by (simp add: decrypt_file_try_def open_rb_def open_wb_def os_remove_def
          os_rename_def algo_gcm w4_def md'_def upd)
  qed
  have r: "decrypt_file lib p (self, w) = (self1, emit w4 INFO (''Decrypted '' @ p))"
    by (simp add: decrypt_file_def t logging_info_def)
  have fp: "files (emit w4 INFO (''Decrypted '' @ p)) p = Some (File m md')"
  proof (cases "p = CONFIG_logfile")
    case True
    then have "\<not> log_linked w4" by (simp add: w4_def)
    then show ?thesis by (simp add: emit_files_unlinked) (simp add: w4_def)
  next
    case False
    then show ?thesis by (simp add: emit_files_other) (simp add: w4_def)
  qed
  have fl: "faulty (emit w4 INFO (''Decrypted '' @ p)) = faulty w"
    by (simp add: emit_faulty) (simp add: w4_def)
  have lg: "logged (emit w4 INFO (''Decrypted '' @ p)) = logged w @ [(INFO, ''Decrypted '' @ p)]"
    by (simp add: emit_logged) (simp add: w4_def)
  show ?thesis using r fp fl lg by auto
qed

lemma encrypt_file_engine:
  assumes "library_ok lib" and "cache_inv lib self" and "fault_free w"
    and "files w p = Some (File m md)" and "files w (p @ ''.enc'') \<noteq> Some Dir"
    and "utf8_valid p"
  shows "cache_inv lib (fst (encrypt_file lib p (self, w))) \<and>
         master_key (fst (encrypt_file lib p (self, w))) = master_key self"
proof -
  from encrypt_file_success[OF assms]
  have "fst (encrypt_file lib p (self, w)) = snd (derive_key lib self p)" by blast
  then show ?thesis using assms(2) by (simp add: derive_key_inv derive_key_master)
qed

text \<open>
  The state after \<open>encrypt_file\<close> by one engine and \<open>decrypt_file\<close> by any engine with
  the same master key.
\<close>

lemma roundtrip_files:
  assumes lib: "library_ok lib" and inv: "cache_inv lib self" and ff: "fault_free w"
    and f: "files w p = Some (File m md)"
    and ne: "files w (p @ ''.enc'') \<noteq> Some Dir" and nd: "files w (p @ ''.dec'') \<noteq> Some Dir"
    and v: "utf8_valid p"
    and inv2: "cache_inv lib self2" and mk: "master_key self2 = master_key self"
  shows "\<exists>md'. files (snd (decrypt_file lib p (self2, snd (encrypt_file lib p (self, w))))) p =
             Some (File m md') \<and>
           logged (snd (decrypt_file lib p (self2, snd (encrypt_file lib p (self, w))))) =
             logged w @ [(INFO, ''Encrypted '' @ p), (INFO, ''Decrypted '' @ p)]"
proof -
  define key where "key = hmac_sha256 lib (master_key self) (sha256 lib (fs_bytes p))"
  define nonce where "nonce = fst (get_random_bytes 12 w)"
  define w1 where "w1 = snd (encrypt_file lib p (self, w))"
  from encrypt_file_success[OF lib inv ff f ne v] obtain ct tag md1 where
    lt: "length tag = 16" and d: "gcm_decrypt lib key nonce ct tag = Inr m"
    and fp: "files w1 p = Some (File (nonce @ tag @ ct) md1)"
    and fd: "files w1 (p @ ''.dec'') = files w (p @ ''.dec'')"
    and ff1: "faulty w1 = faulty w"
    and l1: "logged w1 = logged w @ [(INFO, ''Encrypted '' @ p)]"
    unfolding key_def nonce_def w1_def by blast
  have ln: "length nonce = 12" by (simp add: nonce_def get_random_bytes_length)
  have k: "fst (derive_key lib self2 p) = Inr key"
    using inv2 v by (simp add: derive_key_value key_def mk)
  have dk: "derive_key lib self2 p = (Inr key, snd (derive_key lib self2 p))"
    using k by (cases "derive_key lib self2 p") simp
  have ff': "fault_free w1" using ff by (simp add: fault_free_def ff1)
  have nd': "files w1 (p @ ''.dec'') \<noteq> Some Dir" using nd by (simp add: fd)
  from decrypt_file_success[OF ff' fp read_container_frame[OF ln lt] dk d nd']
  obtain md' where
    f2: "files (snd (decrypt_file lib p (self2, w1))) p = Some (File m md')"
    and l2: "logged (snd (decrypt_file lib p (self2, w1))) = logged w1 @ [(INFO, ''Decrypted '' @ p)]"
    by blast
  with l1 show ?thesis unfolding w1_def[symmetric] by auto
qed

section \<open>The walk\<close>

lemma open_wb_Inr:
  "open_wb w p d = Inr w' \<Longrightarrow>
     logged w' = logged w \<and> faulty w' = faulty w \<and> (\<forall>q. q \<noteq> p \<longrightarrow> os_path_isfile w' q = os_path_isfile w q)"
  by (auto simp add: open_wb_def os_path_isfile_def split: if_splits option.splits node.splits)

lemma os_remove_Inr:
  "os_remove w p = Inr w' \<Longrightarrow>
     logged w' = logged w \<and> faulty w' = faulty w \<and> (\<forall>q. q \<noteq> p \<longrightarrow> os_path_isfile w' q = os_path_isfile w q)"
  by (auto simp add: os_remove_def os_path_isfile_def split: if_splits option.splits node.splits)

lemma os_rename_Inr:
  "os_rename w src dst = Inr w' \<Longrightarrow>
     logged w' = logged w \<and> faulty w' = faulty w \<and>
     (\<forall>q. q \<noteq> src \<and> q \<noteq> dst \<longrightarrow> os_path_isfile w' q = os_path_isfile w q)"
  by (auto simp add: os_rename_def os_path_isfile_def split: if_splits option.splits node.splits)

text \<open>
  What the \<open>try\<close> block of \<open>encrypt_file\<close> does to the other paths and to the log, however
  it ends.
\<close>

lemma encrypt_file_try_effect:
  assumes "encrypt_file_try lib p (self, w) = (r, self', w')"
  shows "(\<forall>q. q \<noteq> p \<and> q \<noteq> p @ ''.enc'' \<longrightarrow> os_path_isfile w' q = os_path_isfile w q) \<and>
         faulty w' = faulty w \<and>
         (case r of None \<Rightarrow> logged w' = logged w @ [(INFO, ''Encrypted '' @ p)]
                  | Some e \<Rightarrow> logged w' = logged w)"
proof -
  obtain nonce w1 where g: "get_random_bytes 12 w = (nonce, w1)"
    by (cases "get_random_bytes 12 w")
  have w1: "\<And>q. os_path_isfile w1 q = os_path_isfile w q" "faulty w1 = faulty w"
    "logged w1 = logged w"
    using get_random_bytes_world[of 12 w] g by (simp_all add: os_path_isfile_def)
  show ?thesis
    using assms g w1
    by (auto simp add: encrypt_file_try_def logging_info_def emit_logged emit_faulty emit_isfile
        split: sum.splits prod.splits
        dest!: open_wb_Inr os_remove_Inr os_rename_Inr)
qed

lemma encrypt_file_effect:
  "(\<forall>q. q \<noteq> p \<and> q \<noteq> p @ ''.enc'' \<longrightarrow>
      os_path_isfile (snd (encrypt_file lib p s)) q = os_path_isfile (snd s) q) \<and>
   (\<exists>r. logged (snd (encrypt_file lib p s)) = logged (snd s) @ [r] \<and>
      (r = (INFO, ''Encrypted '' @ p) \<or> (\<exists>e. r = (ERROR, ''Failed '' @ p @ '': '' @ str_error e))))"
proof -
  obtain self w where s: "s = (self, w)" by (cases s)
  obtain r self' w' where t: "encrypt_file_try lib p (self, w) = (r, self', w')"
    by (cases "encrypt_file_try lib p (self, w)")
  from encrypt_file_try_effect[OF t] show ?thesis
    by (cases r) (auto simp add: s t encrypt_file_def logging_error_def emit_logged emit_isfile)
qed

lemma files_loop_fold:
  "files_loop lib dirpath fs s = foldl (visit lib) s (map (os_path_join dirpath) fs)"
  by (induction fs arbitrary: s) (simp_all add: visit_def Let_def)

lemma walk_loop_fold: "walk_loop lib ts s = foldl (visit lib) s (walk_paths ts)"
proof (induction ts arbitrary: s)
  case Nil
  then show ?case by (simp add: walk_paths_def)
next
  case (Cons t ts)
  obtain dirpath dirnames filenames where t: "t = (dirpath, dirnames, filenames)"
    by (cases t)
  have "walk_paths (t # ts) = map (os_path_join dirpath) filenames @ walk_paths ts"
    by (simp add: walk_paths_def t)
  then show ?case by (simp add: t Cons.IH files_loop_fold)
qed

lemma should_encrypt_enc: "\<not> should_encrypt w (p @ ''.enc'')"
  by (simp add: should_encrypt_def CONFIG_extensions_def suffix_def)

lemma should_encrypt_isfile:
  "os_path_isfile w' q = os_path_isfile w q \<Longrightarrow> should_encrypt w' q = should_encrypt w q"
  by (simp add: should_encrypt_def)

lemma should_encrypt_visit:
  assumes "q \<noteq> p"
  shows "should_encrypt (snd (visit lib s p)) q = should_encrypt (snd s) q"
proof (cases "q = p @ ''.enc''")
  case True
  then show ?thesis by (simp add: should_encrypt_enc)
next
  case False
  with assms have "os_path_isfile (snd (visit lib s p)) q = os_path_isfile (snd s) q"
    using encrypt_file_effect[of p lib s] by (simp add: visit_def)
  then show ?thesis by (rule should_encrypt_isfile)
qed

lemma visit_logged:
  "\<exists>rs. logged (snd (visit lib s p)) = logged (snd s) @ rs \<and>
     list_all2 outcome (filter (should_encrypt (snd s)) [p]) rs"
proof (cases "should_encrypt (snd s) p")
  case False
  then show ?thesis by (simp add: visit_def)
next
  case True
  from encrypt_file_effect[of p lib s] obtain r where
    r: "logged (snd (encrypt_file lib p s)) = logged (snd s) @ [r]" and o: "outcome p r"
    unfolding outcome_def by blast
  have "logged (snd (visit lib s p)) = logged (snd s) @ [r]"
    using True r by (simp add: visit_def)
  moreover have "list_all2 outcome (filter (should_encrypt (snd s)) [p]) [r]"
    using True o by simp
  ultimately show ?thesis by blast
qed

lemma fold_visit_logged:
  assumes "distinct ps"
  shows "\<exists>rs. logged (snd (foldl (visit lib) s ps)) = logged (snd s) @ rs \<and>
           list_all2 outcome (filter (should_encrypt (snd s)) ps) rs"
  using assms
proof (induction ps arbitrary: s)
  case Nil
  then show ?case by simp
next
  case (Cons p ps)
  from visit_logged[of lib s p] obtain r1 where
    r1: "logged (snd (visit lib s p)) = logged (snd s) @ r1"
        "list_all2 outcome (filter (should_encrypt (snd s)) [p]) r1"
    by blast
  from Cons.prems have d: "distinct ps" and n: "p \<notin> set ps" by simp_all
  from Cons.IH[OF d, of "visit lib s p"] obtain r2 where
    r2: "logged (snd (foldl (visit lib) (visit lib s p) ps)) = logged (snd (visit lib s p)) @ r2"
        "list_all2 outcome (filter (should_encrypt (snd (visit lib s p))) ps) r2"
    by blast
  have "filter (should_encrypt (snd (visit lib s p))) ps = filter (should_encrypt (snd s)) ps"
    using n by (intro filter_cong refl should_encrypt_visit) auto
  with r2 have r2': "list_all2 outcome (filter (should_encrypt (snd s)) ps) r2" by simp
  have "filter (should_encrypt (snd s)) (p # ps)
        = filter (should_encrypt (snd s)) [p] @ filter (should_encrypt (snd s)) ps"
    by simp
  then have "list_all2 outcome (filter (should_encrypt (snd s)) (p # ps)) (r1 @ r2)"
    using r1(2) r2' by (simp only: list_all2_appendI)
  moreover have "logged (snd (foldl (visit lib) s (p # ps))) = logged (snd s) @ r1 @ r2"
    using r1(1) r2(1) by simp
  ultimately show ?case by blast
qed

lemma fold_visit_no_decrypted:
  "\<exists>rs. logged (snd (foldl (visit lib) s ps)) = logged (snd s) @ rs \<and>
     (\<forall>q. (INFO, ''Decrypted '' @ q) \<notin> set rs)"
proof (induction ps arbitrary: s)
  case Nil
  then show ?case by simp
next
  case (Cons p ps)
  have "\<exists>r1. logged (snd (visit lib s p)) = logged (snd s) @ r1 \<and>
       (\<forall>q. (INFO, ''Decrypted '' @ q) \<notin> set r1)"
  proof (cases "should_encrypt (snd s) p")
    case False
    then show ?thesis by (simp add: visit_def)
  next
    case True
    from encrypt_file_effect[of p lib s] obtain r where
      r: "logged (snd (encrypt_file lib p s)) = logged (snd s) @ [r]"
      and o: "r = (INFO, ''Encrypted '' @ p) \<or> fst r = ERROR"
      by auto
    have "logged (snd (visit lib s p)) = logged (snd s) @ [r]"
      using True r by (simp add: visit_def)
    moreover have "\<forall>q. (INFO, ''Decrypted '' @ q) \<notin> set [r]"
      using o by auto
    ultimately show ?thesis by blast
  qed
  then obtain r1 where r1: "logged (snd (visit lib s p)) = logged (snd s) @ r1"
       "\<forall>q. (INFO, ''Decrypted '' @ q) \<notin> set r1" by blast
  from Cons.IH[of "visit lib s p"] obtain r2 where
    r2: "logged (snd (foldl (visit lib) (visit lib s p) ps)) = logged (snd (visit lib s p)) @ r2"
        "\<forall>q. (INFO, ''Decrypted '' @ q) \<notin> set r2" by blast
  have "logged (snd (foldl (visit lib) s (p # ps))) = logged (snd s) @ r1 @ r2"
    using r1(1) r2(1) by simp
  moreover have "\<forall>q. (INFO, ''Decrypted '' @ q) \<notin> set (r1 @ r2)"
    using r1(2) r2(2) by simp
  ultimately show ?case by blast
qed

lemma init_keystore_logged: "logged (snd (init_keystore w)) = logged w"
  by (auto simp add: init_keystore_def get_random_bytes_def open_wb_def os_chmod_def
      split: sum.splits error.splits prod.splits if_splits option.splits node.splits)

lemma CryptoEngine_logged: "logged (snd (CryptoEngine w)) = logged w"
  using init_keystore_logged[of w]
  by (auto simp add: CryptoEngine_def split: prod.splits sum.splits)

lemma process_filesystem_fold:
  "process_filesystem lib root w =
     (case CryptoEngine w of
        (Inl e, w1) \<Rightarrow> (Some e, w1)
      | (Inr crypto, w1) \<Rightarrow>
          (None, snd (foldl (visit lib) (crypto, w1) (walk_paths (os_walk lib (files w1) root)))))"
  by (simp add: process_filesystem_def walk_loop_fold split: prod.splits sum.splits)

lemma process_filesystem_no_decrypted:
  "\<exists>rs. logged (snd (process_filesystem lib root w)) = logged w @ rs \<and>
     (\<forall>q. (INFO, ''Decrypted '' @ q) \<notin> set rs)"
proof (cases "CryptoEngine w")
  case (Pair r w1)
  have l: "logged w1 = logged w" using CryptoEngine_logged[of w] Pair by simp
  show ?thesis
  proof (cases r)
    case (Inl e)
    then show ?thesis using Pair l by (simp add: process_filesystem_fold)
  next
    case (Inr crypto)
    then show ?thesis
      using Pair l fold_visit_no_decrypted[of lib "(crypto, w1)"]
      by (simp add: process_filesystem_fold)
  qed
qed

lemma lock_system_loop_no_decrypted:
  "\<exists>rs. logged (snd (lock_system_loop lib roots w)) = logged w @ rs \<and>
     (\<forall>q. (INFO, ''Decrypted '' @ q) \<notin> set rs)"
proof (induction roots arbitrary: w)
  case Nil
  then show ?case by simp
next
  case (Cons root roots)
  show ?case
  proof (cases "os_path_exists w root")
    case False
    then show ?thesis using Cons.IH[of w] by simp
  next
    case True
    obtain r w1 where p: "process_filesystem lib root w = (r, w1)"
      by (cases "process_filesystem lib root w")
    from process_filesystem_no_decrypted[of lib root w] p obtain r1 where
      r1: "logged w1 = logged w @ r1" "\<forall>q. (INFO, ''Decrypted '' @ q) \<notin> set r1" by auto
    show ?thesis
    proof (cases r)
      case (Some e)
      then show ?thesis using True p r1 by simp
    next
      case None
      from Cons.IH[of w1] obtain r2 where
        r2: "logged (snd (lock_system_loop lib roots w1)) = logged w1 @ r2"
            "\<forall>q. (INFO, ''Decrypted '' @ q) \<notin> set r2" by blast
      have "logged (snd (lock_system_loop lib (root # roots) w)) = logged w @ r1 @ r2"
        using True p None r1(1) r2(1) by simp
      moreover have "\<forall>q. (INFO, ''Decrypted '' @ q) \<notin> set (r1 @ r2)"
        using r1(2) r2(2) by simp
      ultimately show ?thesis by blast
    qed
  qed
qed

lemma unlock_lock_loop: "unlock_system_loop lib roots w = lock_system_loop lib roots w"
  by (induction roots arbitrary: w) (auto split: prod.splits option.splits)

section \<open>The demo instance meets the assumptions\<close>

lemma demo_library_ok: "library_ok demo_library"
  by (auto simp add: library_ok_def demo_library_def demo_encrypt_def demo_decrypt_def
      demo_tag_def comp_def)

lemma demo_tag16: "tag16 demo_library"
proof -
  have "length t \<noteq> 16 \<Longrightarrow> t \<noteq> demo_tag n ct" for t n ct
    by (auto simp add: demo_tag_def)
  then show ?thesis
    by (auto simp add: tag16_def demo_library_def demo_decrypt_def mac_check_failed_def)
qed

lemma demo_fault_free: "fault_free demo_world"
  by (simp add: fault_free_def demo_world_def)

lemma demo_engine_inv: "cache_inv lib demo_engine"
  by (simp add: cache_inv_def demo_engine_def)

lemma demo_valid:
  "utf8_valid ''/home/a''" "utf8_valid ''/home/e''" "utf8_valid ''/home/b''"
  "utf8_valid CONFIG_logfile" "\<not> utf8_valid bad_name"
  by (simp_all add: utf8_valid_def CONFIG_logfile_def bad_name_def)

lemma demo_derive_key:
  "utf8_valid p \<Longrightarrow> derive_key demo_library demo_engine p
     = (Inr (replicate 32 3), demo_engine\<lparr>key_cache := [p \<mapsto> replicate 32 3]\<rparr>)"
  by (simp add: derive_key_def encode_valid demo_engine_def demo_library_def Let_def)

lemma demo_gcm_decrypt: "gcm_decrypt demo_library = demo_decrypt"
  by (simp add: demo_library_def)

lemma demo_gcm_encrypt: "gcm_encrypt demo_library = demo_encrypt"
  by (simp add: demo_library_def)

lemma demo_walk_paths:
  "walk_paths (os_walk demo_library fs ''/home'') = [''/home/a'', ''/home/b'', ''/home/e'']"
  by (simp add: walk_paths_def demo_library_def demo_walk_def os_path_join_def suffix_def)

lemma faulty_engine: "CryptoEngine faulty_world = (Inr demo_engine, faulty_world)"
  by (simp add: CryptoEngine_def init_keystore_def open_rb_def faulty_world_def
      short_keystore_world_def demo_engine_def CONFIG_keystore_def)

section \<open>Names that UTF-8 cannot encode\<close>

lemma bad_name_error:
  "encode bad_name = Inl (UnicodeEncodeError bad_name 6 7)"
  by (simp add: encode_def utf8_valid_def bad_start_def bad_stop_def bad_name_def)

lemma bad_name_text:
  "str_error (UnicodeEncodeError bad_name 6 7)
     = [CHR 0x27] @ ''utf-8'' @ [CHR 0x27] @ '' codec can't encode character '' @
       [CHR 0x27, CHR 0x5C] @ ''udcff'' @ [CHR 0x27] @ '' in position 6: surrogates not allowed''"
  by (simp add: str_error_def bad_name_def hex2_def)

section \<open>Containers of the demo instance\<close>

lemma tampered_read:
  "read_container tampered_container
      = ([0, 1, 2, 3, 4, 5, 6, 7, 8, 9, 10, 11],
         [3, 3, 4, 0, 1, 2, 3, 4, 5, 6, 7, 8, 9, 10, 11, 0], [2, 3, 4])"
  unfolding tampered_container_def by (rule read_container_frame) simp_all

lemma tampered_rejected:
  "gcm_decrypt demo_library (replicate 32 3) [0, 1, 2, 3, 4, 5, 6, 7, 8, 9, 10, 11] [2, 3, 4]
     [3, 3, 4, 0, 1, 2, 3, 4, 5, 6, 7, 8, 9, 10, 11, 0] = Inl mac_check_failed"
  by (simp add: demo_gcm_decrypt demo_decrypt_def demo_tag_def)

lemma decrypt_file_cipher_error:
  assumes "files w p = Some (File c md)" and "\<not> faulty w Read p"
    and "derive_key lib self p = (Inr key, self1)"
    and "gcm_decrypt lib key (take 12 c) (drop 28 c) (take 16 (drop 12 c)) = Inl e"
  shows "decrypt_file_try lib p (self, w) = (Some e, self1, w)"
    and "decrypt_file lib p (self, w)
           = (self1, logging_error w (''Failed '' @ p @ '': '' @ str_error e))"
proof -
  show t: "decrypt_file_try lib p (self, w) = (Some e, self1, w)"
    using assms by (simp add: decrypt_file_try_def open_rb_def algo_gcm read_container_eq)
  show "decrypt_file lib p (self, w)
           = (self1, logging_error w (''Failed '' @ p @ '': '' @ str_error e))"
    by (simp add: decrypt_file_def t)
qed

lemma decrypt_file_derive_error:
  assumes "files w p = Some (File c md)" and "\<not> faulty w Read p"
    and "derive_key lib self p = (Inl e, self1)"
  shows "decrypt_file_try lib p (self, w) = (Some e, self1, w)"
  using assms by (simp add: decrypt_file_try_def open_rb_def read_container_eq)

lemma short_tag: "length c < 28 \<Longrightarrow> length (take 16 (drop 12 c)) \<noteq> 16"
  by simp

text \<open>A container below 28 bytes never gets past the cipher that checks the tag's length.\<close>

lemma short_container_rejected:
  assumes f: "files w p = Some (File c md)" and nf: "\<not> faulty w Read p"
    and l: "length c < 28" and t16: "tag16 lib"
  shows "\<exists>e self'.
           decrypt_file_try lib p (self, w) = (Some e, self', w) \<and>
           (\<forall>key self1. derive_key lib self p = (Inr key, self1) \<longrightarrow>
              gcm_decrypt lib key (take 12 c) (drop 28 c) (take 16 (drop 12 c)) = Inl e \<and>
              (\<exists>msg. e = ValueError msg))"
proof (cases "derive_key lib self p")
  case (Pair r self1)
  show ?thesis
  proof (cases r)
    case (Inl e)
    with Pair f nf have "decrypt_file_try lib p (self, w) = (Some e, self1, w)"
      by (simp add: decrypt_file_derive_error)
    with Pair Inl show ?thesis by simp
  next
    case (Inr key)
    from t16 short_tag[OF l] obtain msg where
      g: "gcm_decrypt lib key (take 12 c) (drop 28 c) (take 16 (drop 12 c)) = Inl (ValueError msg)"
      unfolding tag16_def by blast
    from Pair Inr have dk: "derive_key lib self p = (Inr key, self1)" by simp
    from decrypt_file_cipher_error(1)[OF f nf dk g]
    have "decrypt_file_try lib p (self, w) = (Some (ValueError msg), self1, w)" .
    with dk g show ?thesis by simp
  qed
qed

lemma good_read:
  "read_container good_container
      = ([0, 1, 2, 3, 4, 5, 6, 7, 8, 9, 10, 11],
         [2, 3, 4, 0, 1, 2, 3, 4, 5, 6, 7, 8, 9, 10, 11, 0], [2, 3, 4])"
  unfolding good_container_def by (rule read_container_frame) simp_all

lemma good_accepted:
  "gcm_decrypt demo_library (replicate 32 3) [0, 1, 2, 3, 4, 5, 6, 7, 8, 9, 10, 11] [2, 3, 4]
     [2, 3, 4, 0, 1, 2, 3, 4, 5, 6, 7, 8, 9, 10, 11, 0] = Inr [1, 2, 3]"
  by (simp add: demo_gcm_decrypt demo_decrypt_def demo_tag_def)

lemma short_rejected:
  "gcm_decrypt demo_library (replicate 32 3) (replicate 12 0) [] (replicate 15 0)
      = Inl (ValueError ''MAC check failed'')"
proof -
  have "length (replicate 15 (0::byte)) \<noteq> length (demo_tag (replicate 12 0) [])"
    by (simp add: demo_tag_def)
  then have "replicate 15 (0::byte) \<noteq> demo_tag (replicate 12 0) []"
    by (rule contrapos_nn) simp
  then show ?thesis
    by (simp add: demo_gcm_decrypt demo_decrypt_def mac_check_failed_def)
qed

lemma short_parts:
  "take 12 (replicate 27 (0::byte)) = replicate 12 0"
  "take 16 (drop 12 (replicate 27 (0::byte))) = replicate 15 0"
  "drop 28 (replicate 27 (0::byte)) = []"
  by simp_all

section \<open>A run with a file that cannot be read\<close>

lemma eacces_text:
  "str_error (OSError 13 ''Permission denied'' ''/home/b'' None)
     = ''[Errno 13] Permission denied: '' @ [CHR 0x27] @ ''/home/b'' @ [CHR 0x27]"
  by (simp add: str_error_def py_repr_def repr_point_def repr_char_def Let_def)

lemma faulty_run_log:
  "logged (snd (process_filesystem demo_library ''/home'' faulty_world))
     = [(INFO, ''Encrypted /home/a''),
        (ERROR, ''Failed /home/b: [Errno 13] Permission denied: '' @ [CHR 0x27] @ ''/home/b'' @ [CHR 0x27]),
        (INFO, ''Encrypted /home/e'')]"
  apply (simp add: process_filesystem_fold faulty_engine demo_walk_paths visit_def)
  apply (simp add: should_encrypt_def os_path_isfile_def CONFIG_exclude_def CONFIG_extensions_def
      suffix_def encrypt_file_def encrypt_file_try_def open_rb_def open_wb_def os_remove_def
      os_rename_def logging_info_def logging_error_def emit_def refused_def eacces_text
      get_random_bytes_def CONFIG_logfile_def
      algo_gcm demo_gcm_encrypt demo_encrypt_def demo_tag_def derive_key_def encode_valid demo_valid Let_def
      demo_engine_def faulty_world_def short_keystore_world_def demo_world_def
      CONFIG_keystore_def demo_library_def)
  done

section \<open>Claims\<close>

text \<open>
  C1. Round trip. Let the library meet \<open>library_ok\<close>, the engine's cache hold derived
  keys only, no I/O operation be refused, and the name \<open>p\<close> be one that UTF-8 encodes
  (for any other name \<open>path.encode()\<close> raises before anything is encrypted). Then for
  every content \<open>m\<close> of a regular file \<open>p\<close> and every master key (of any length),
  \<open>encrypt_file\<close> followed by \<open>decrypt_file\<close> on \<open>p\<close> leaves \<open>p\<close> with content \<open>m\<close>, and
  the log gains the two success records. Decryption may be done by the engine that
  encrypted or by any other engine with the same master key, a later process for one.
  The temporary names \<open>p.enc\<close> and \<open>p.dec\<close> must not be directories.
\<close>

theorem encrypt_decrypt_roundtrip:
  assumes "library_ok lib" and "cache_inv lib self" and "fault_free w"
    and "files w p = Some (File m md)"
    and "files w (p @ ''.enc'') \<noteq> Some Dir" and "files w (p @ ''.dec'') \<noteq> Some Dir"
    and "utf8_valid p"
  shows "(\<exists>md'. files (snd (decrypt_file lib p (encrypt_file lib p (self, w)))) p = Some (File m md') \<and>
            logged (snd (decrypt_file lib p (encrypt_file lib p (self, w)))) =
              logged w @ [(INFO, ''Encrypted '' @ p), (INFO, ''Decrypted '' @ p)]) \<and>
         (cache_inv lib self2 \<and> master_key self2 = master_key self \<longrightarrow>
            (\<exists>md'. files (snd (decrypt_file lib p (self2, snd (encrypt_file lib p (self, w))))) p
               = Some (File m md')))"
proof -
  let ?s1 = "encrypt_file lib p (self, w)"
  have same: "cache_inv lib (fst ?s1) \<and> master_key (fst ?s1) = master_key self"
    using assms(1-5) assms(7) by (rule encrypt_file_engine)
  have "\<exists>md'. files (snd (decrypt_file lib p (fst ?s1, snd ?s1))) p = Some (File m md') \<and>
           logged (snd (decrypt_file lib p (fst ?s1, snd ?s1))) =
             logged w @ [(INFO, ''Encrypted '' @ p), (INFO, ''Decrypted '' @ p)]"
    using assms same by (intro roundtrip_files) simp_all
  then have a: "\<exists>md'. files (snd (decrypt_file lib p ?s1)) p = Some (File m md') \<and>
            logged (snd (decrypt_file lib p ?s1)) =
              logged w @ [(INFO, ''Encrypted '' @ p), (INFO, ''Decrypted '' @ p)]"
    by auto
  have b: "cache_inv lib self2 \<and> master_key self2 = master_key self \<longrightarrow>
            (\<exists>md'. files (snd (decrypt_file lib p (self2, snd ?s1))) p = Some (File m md'))"
  proof
    assume h: "cache_inv lib self2 \<and> master_key self2 = master_key self"
    from roundtrip_files[OF assms, of self2] h
    obtain md' where "files (snd (decrypt_file lib p (self2, snd ?s1))) p = Some (File m md')"
      by blast
    then show "\<exists>md'. files (snd (decrypt_file lib p (self2, snd ?s1))) p = Some (File m md')"
      by blast
  qed
  show ?thesis using a b by (rule conjI)
qed

text \<open>
  C1 at \<open>/home/a\<close> of the demo world, decrypted by the same engine and by a new one.
\<close>

theorem encrypt_decrypt_roundtrip_witness:
  "library_ok demo_library \<and> cache_inv demo_library demo_engine \<and> fault_free demo_world \<and>
   files demo_world ''/home/a'' = Some (File [1, 2, 3] 420) \<and>
   files demo_world (''/home/a'' @ ''.enc'') \<noteq> Some Dir \<and>
   files demo_world (''/home/a'' @ ''.dec'') \<noteq> Some Dir \<and>
   utf8_valid ''/home/a'' \<and>
   master_key demo_engine = master_key demo_engine \<and>
   (\<exists>md'. files (snd (decrypt_file demo_library ''/home/a''
              (encrypt_file demo_library ''/home/a'' (demo_engine, demo_world)))) ''/home/a''
             = Some (File [1, 2, 3] md') \<and>
           logged (snd (decrypt_file demo_library ''/home/a''
              (encrypt_file demo_library ''/home/a'' (demo_engine, demo_world))))
             = logged demo_world @ [(INFO, ''Encrypted '' @ ''/home/a''), (INFO, ''Decrypted '' @ ''/home/a'')]) \<and>
   (\<exists>md'. files (snd (decrypt_file demo_library ''/home/a''
              (demo_engine, snd (encrypt_file demo_library ''/home/a'' (demo_engine, demo_world)))))
              ''/home/a''
             = Some (File [1, 2, 3] md'))"
proof -
  have f: "files demo_world ''/home/a'' = Some (File [1, 2, 3] 420)"
    by (simp add: demo_world_def)
  have e: "files demo_world (''/home/a'' @ ''.enc'') \<noteq> Some Dir"
    by (simp add: demo_world_def)
  have d: "files demo_world (''/home/a'' @ ''.dec'') \<noteq> Some Dir"
    by (simp add: demo_world_def)
  show ?thesis
    using encrypt_decrypt_roundtrip
        [OF demo_library_ok demo_engine_inv demo_fault_free f e d demo_valid(1), of demo_engine]
      demo_library_ok demo_engine_inv [of demo_library] demo_fault_free f e d demo_valid(1)
    by blast
qed

text \<open>
  C2. \<open>unlock_system\<close> and \<open>lock_system\<close> are the same function of the world, and so is
  \<open>main\<close> whatever its arguments, \<open>--unlock\<close> included. \<open>process_filesystem\<close> applies
  \<open>encrypt_file\<close> to every path of the walk that \<open>should_encrypt\<close> accepts, in order.
  No record that a run adds to the log is the success record of \<open>decrypt_file\<close>.
\<close>

theorem lock_unlock_same:
  "unlock_system lib w = lock_system lib w \<and>
   main lib argv w = lock_system lib w \<and>
   process_filesystem lib root w =
     (case CryptoEngine w of
        (Inl e, w1) \<Rightarrow> (Some e, w1)
      | (Inr crypto, w1) \<Rightarrow>
          (None, snd (foldl (\<lambda>s p. if should_encrypt (snd s) p then encrypt_file lib p s else s)
                        (crypto, w1) (walk_paths (os_walk lib (files w1) root))))) \<and>
   (\<exists>rs. logged (snd (main lib argv w)) = logged w @ rs \<and>
      (\<forall>q. (INFO, ''Decrypted '' @ q) \<notin> set rs))"
proof -
  have u: "unlock_system lib w = lock_system lib w"
    by (simp add: unlock_system_def lock_system_def unlock_lock_loop)
  have m: "main lib argv w = lock_system lib w"
    by (simp add: main_def u)
  have v: "visit lib = (\<lambda>s p. if should_encrypt (snd s) p then encrypt_file lib p s else s)"
    by (simp add: fun_eq_iff visit_def)
  have d: "\<exists>rs. logged (snd (main lib argv w)) = logged w @ rs \<and>
      (\<forall>q. (INFO, ''Decrypted '' @ q) \<notin> set rs)"
    unfolding m lock_system_def by (rule lock_system_loop_no_decrypted)
  have f: "process_filesystem lib root w =
     (case CryptoEngine w of
        (Inl e, w1) \<Rightarrow> (Some e, w1)
      | (Inr crypto, w1) \<Rightarrow>
          (None, snd (foldl (\<lambda>s p. if should_encrypt (snd s) p then encrypt_file lib p s else s)
                        (crypto, w1) (walk_paths (os_walk lib (files w1) root)))))"
    unfolding v[symmetric] by (rule process_filesystem_fold)
  show ?thesis using u m f d by (intro conjI)
qed

text \<open>
  C3, amended. For every master key and every path that UTF-8 encodes, in an engine
  that has derived any keys before, the derived key is HMAC-SHA256 under the master key
  of the SHA-256 digest of the path's bytes. For a path that UTF-8 does not encode,
  \<open>_derive_key\<close> raises the \<open>UnicodeEncodeError\<close> of \<open>path.encode()\<close> and leaves the engine
  as it was: no key is returned and none is cached. In both cases a second call with the
  same path has the outcome of the first and leaves the engine as the first left it, and
  a key that was returned is the one the cache holds for the path.
\<close>

theorem derive_key_is_hmac_of_path_hash:
  "(utf8_valid p \<longrightarrow>
      fst (derive_key lib (derive_all lib \<lparr>master_key = mk, key_cache = Map.empty\<rparr> ps) p)
        = Inr (hmac_sha256 lib mk (sha256 lib (fs_bytes p)))) \<and>
   (\<not> utf8_valid p \<longrightarrow>
      derive_key lib (derive_all lib \<lparr>master_key = mk, key_cache = Map.empty\<rparr> ps) p
        = (Inl (UnicodeEncodeError p (bad_start p) (bad_stop p)),
           derive_all lib \<lparr>master_key = mk, key_cache = Map.empty\<rparr> ps)) \<and>
   derive_key lib (snd (derive_key lib self p)) p
     = (fst (derive_key lib self p), snd (derive_key lib self p)) \<and>
   (fst (derive_key lib self p) = Inr k \<longrightarrow> key_cache (snd (derive_key lib self p)) p = Some k)"
proof -
  let ?e = "derive_all lib \<lparr>master_key = mk, key_cache = Map.empty\<rparr> ps"
  have inv: "cache_inv lib ?e"
    by (rule derive_all_inv) (rule cache_inv_empty)
  have a: "utf8_valid p \<longrightarrow>
      fst (derive_key lib ?e p) = Inr (hmac_sha256 lib mk (sha256 lib (fs_bytes p)))"
    using inv by (simp add: derive_key_value derive_all_master)
  have b: "\<not> utf8_valid p \<longrightarrow>
      derive_key lib ?e p = (Inl (UnicodeEncodeError p (bad_start p) (bad_stop p)), ?e)"
    using inv by (simp add: derive_key_invalid)
  have c: "derive_key lib (snd (derive_key lib self p)) p
     = (fst (derive_key lib self p), snd (derive_key lib self p))"
    by (rule derive_key_again)
  have d: "fst (derive_key lib self p) = Inr k \<longrightarrow> key_cache (snd (derive_key lib self p)) p = Some k"
    by (simp add: derive_key_cached)
  show ?thesis using a b c d by (intro conjI)
qed

text \<open>
  C3, amended, at \<open>/home/a\<close> and at a name that ends in the byte 0xFF, in an engine with
  the master key 7 7 7 that has derived the keys of two paths.
\<close>

theorem derive_key_is_hmac_of_path_hash_witness:
  "utf8_valid ''/home/a'' \<and>
   fst (derive_key demo_library
          (derive_all demo_library \<lparr>master_key = [7, 7, 7], key_cache = Map.empty\<rparr>
             [''/home/e'', ''/home/a'']) ''/home/a'')
     = Inr (hmac_sha256 demo_library [7, 7, 7] (sha256 demo_library (fs_bytes ''/home/a''))) \<and>
   \<not> utf8_valid bad_name \<and>
   fst (derive_key demo_library
          (derive_all demo_library \<lparr>master_key = [7, 7, 7], key_cache = Map.empty\<rparr>
             [''/home/e'', ''/home/a'']) bad_name)
     = Inl (UnicodeEncodeError bad_name (bad_start bad_name) (bad_stop bad_name)) \<and>
   fst (derive_key demo_library demo_engine ''/home/a'') = Inr (replicate 32 3) \<and>
   key_cache (snd (derive_key demo_library demo_engine ''/home/a'')) ''/home/a''
     = Some (replicate 32 3)"
proof -
  have k: "fst (derive_key demo_library demo_engine ''/home/a'') = Inr (replicate 32 3)"
    by (simp add: demo_derive_key demo_valid)
  note a = derive_key_is_hmac_of_path_hash
    [of "''/home/a''" demo_library "[7, 7, 7]" "[''/home/e'', ''/home/a'']" demo_engine
        "replicate 32 3"]
  note b = derive_key_is_hmac_of_path_hash
    [of bad_name demo_library "[7, 7, 7]" "[''/home/e'', ''/home/a'']" demo_engine
        "replicate 32 3"]
  have c: "key_cache (snd (derive_key demo_library demo_engine ''/home/a'')) ''/home/a''
     = Some (replicate 32 3)"
    using a k by blast
  have d: "fst (derive_key demo_library
          (derive_all demo_library \<lparr>master_key = [7, 7, 7], key_cache = Map.empty\<rparr>
             [''/home/e'', ''/home/a'']) bad_name)
     = Inl (UnicodeEncodeError bad_name (bad_start bad_name) (bad_stop bad_name))"
    using b demo_valid(5) by simp
  show ?thesis using a b c d k demo_valid(1) demo_valid(5) by (intro conjI) blast+
qed

text \<open>
  C3 as stated fails at the name \<open>/home/\<close> followed by the byte 0xFF, which \<open>os.walk\<close>
  hands to the program as a \<open>str\<close> with a lone surrogate: the name cannot be encoded,
  \<open>_derive_key\<close> returns no key but raises, and \<open>encrypt_file\<close> on a file of that name logs
  the failure and leaves the file as it is.
\<close>

theorem derive_key_raises_on_surrogate:
  "\<not> utf8_valid bad_name \<and>
   derive_key demo_library demo_engine bad_name
     = (Inl (UnicodeEncodeError bad_name 6 7), demo_engine) \<and>
   files bad_name_world bad_name = Some (File [1, 2, 3] 420) \<and>
   logged (snd (encrypt_file demo_library bad_name (demo_engine, bad_name_world)))
     = [(ERROR, ''Failed '' @ bad_name @ '': '' @ [CHR 0x27] @ ''utf-8'' @ [CHR 0x27] @
          '' codec can't encode character '' @ [CHR 0x27, CHR 0x5C] @ ''udcff'' @ [CHR 0x27] @
          '' in position 6: surrogates not allowed'')] \<and>
   files (snd (encrypt_file demo_library bad_name (demo_engine, bad_name_world))) bad_name
     = Some (File [1, 2, 3] 420)"
proof -
  have dk: "derive_key demo_library demo_engine bad_name
      = (Inl (UnicodeEncodeError bad_name 6 7), demo_engine)"
    by (simp add: derive_key_def bad_name_error demo_engine_def)
  have f: "files bad_name_world bad_name = Some (File [1, 2, 3] 420)"
    by (simp add: bad_name_world_def)
  have nf: "\<not> faulty bad_name_world Read bad_name"
    by (simp add: bad_name_world_def demo_world_def)
  have t: "encrypt_file_try demo_library bad_name (demo_engine, bad_name_world)
      = (Some (UnicodeEncodeError bad_name 6 7), demo_engine, bad_name_world)"
    using f nf by (simp add: encrypt_file_try_def open_rb_def dk)
  have lg: "logged bad_name_world = []" by (simp add: bad_name_world_def demo_world_def)
  have ne: "bad_name \<noteq> CONFIG_logfile" by (simp add: bad_name_def CONFIG_logfile_def)
  have r: "encrypt_file demo_library bad_name (demo_engine, bad_name_world)
      = (demo_engine, emit bad_name_world ERROR
           (''Failed '' @ bad_name @ '': '' @ str_error (UnicodeEncodeError bad_name 6 7)))"
    by (simp add: encrypt_file_def t logging_error_def)
  show ?thesis
    using demo_valid(5) dk f ne
    by (simp add: r emit_logged emit_files_other lg bad_name_text)
qed

text \<open>
  C4, amended. If the tag of the container at \<open>p\<close> does not verify (the cipher raises
  its \<open>MAC check failed\<close> error), the \<open>try\<close> block of \<open>decrypt_file\<close> ends with that error
  and the world it started with: nothing was written, removed or renamed. \<open>decrypt_file\<close>
  then hands the error record, with path and message, to the log. Every file other than
  the log file \<open>/var/log/autocrypt.log\<close> is as before, the one at \<open>p\<close> included when \<open>p\<close>
  is not the log file. The log file is as before too when the handler's file no longer
  has that name; when it has, the log file has gained the line of the error record at
  its end, and that is the only change.
\<close>

theorem decrypt_tag_mismatch_untouched:
  assumes "\<not> faulty w Read p" and "files w p = Some (File c md)"
    and "read_container c = (n, t, ct)"
    and "derive_key lib self p = (Inr key, self1)"
    and "gcm_decrypt lib key n ct t = Inl mac_check_failed"
  shows "decrypt_file_try lib p (self, w) = (Some mac_check_failed, self1, w) \<and>
         decrypt_file lib p (self, w)
           = (self1, logging_error w (''Failed '' @ p @ '': MAC check failed'')) \<and>
         logged (snd (decrypt_file lib p (self, w)))
           = logged w @ [(ERROR, ''Failed '' @ p @ '': MAC check failed'')] \<and>
         (\<forall>q. q \<noteq> CONFIG_logfile \<longrightarrow> files (snd (decrypt_file lib p (self, w))) q = files w q) \<and>
         (p \<noteq> CONFIG_logfile \<longrightarrow>
            files (snd (decrypt_file lib p (self, w))) p = Some (File c md)) \<and>
         (\<not> log_linked w \<longrightarrow> files (snd (decrypt_file lib p (self, w))) = files w) \<and>
         (log_linked w \<and> files w CONFIG_logfile = Some (File d m) \<longrightarrow>
            files (snd (decrypt_file lib p (self, w))) CONFIG_logfile
              = Some (File (d @ stream_encode w
                   (format_record (asctime w (length (logged w))) ERROR
                      (''Failed '' @ p @ '': MAC check failed'') @ [CHR 0x0A])) m))"
proof -
  have t: "decrypt_file_try lib p (self, w) = (Some mac_check_failed, self1, w)"
    using assms by (simp add: decrypt_file_try_def open_rb_def algo_gcm)
  have r: "decrypt_file lib p (self, w)
      = (self1, logging_error w (''Failed '' @ p @ '': MAC check failed''))"
    by (simp add: decrypt_file_def t str_error_def mac_check_failed_def)
  have a: "logged (snd (decrypt_file lib p (self, w)))
           = logged w @ [(ERROR, ''Failed '' @ p @ '': MAC check failed'')]"
    by (simp add: r logging_error_def emit_logged)
  have b: "\<forall>q. q \<noteq> CONFIG_logfile \<longrightarrow> files (snd (decrypt_file lib p (self, w))) q = files w q"
    by (simp add: r logging_error_def emit_files_other)
  have c: "p \<noteq> CONFIG_logfile \<longrightarrow>
            files (snd (decrypt_file lib p (self, w))) p = Some (File c md)"
    using b assms(2) by simp
  have u: "\<not> log_linked w \<longrightarrow> files (snd (decrypt_file lib p (self, w))) = files w"
    by (simp add: r logging_error_def emit_files_unlinked)
  have l: "log_linked w \<and> files w CONFIG_logfile = Some (File d m) \<longrightarrow>
            files (snd (decrypt_file lib p (self, w))) CONFIG_logfile
              = Some (File (d @ stream_encode w
                   (format_record (asctime w (length (logged w))) ERROR
                      (''Failed '' @ p @ '': MAC check failed'') @ [CHR 0x0A])) m)"
    by (simp add: r logging_error_def emit_files_linked)
  show ?thesis using t r a b c u l by (intro conjI)
qed

text \<open>
  C4, amended, at a container with one tag bit flipped: the tampered world holds what
  the demo cipher produces for \<open>/home/a\<close>, except that the first tag byte is 3 instead of
  2. The file is unchanged, and the log file, empty before, holds the error line.
\<close>

theorem decrypt_tag_mismatch_untouched_witness:
  "\<not> faulty tampered_world Read ''/home/a'' \<and>
   demo_encrypt (replicate 32 3) [0, 1, 2, 3, 4, 5, 6, 7, 8, 9, 10, 11] [1, 2, 3]
     = Inr ([2, 3, 4], [2, 3, 4, 0, 1, 2, 3, 4, 5, 6, 7, 8, 9, 10, 11, 0]) \<and>
   files tampered_world ''/home/a'' = Some (File tampered_container 420) \<and>
   read_container tampered_container
      = ([0, 1, 2, 3, 4, 5, 6, 7, 8, 9, 10, 11],
         [3, 3, 4, 0, 1, 2, 3, 4, 5, 6, 7, 8, 9, 10, 11, 0], [2, 3, 4]) \<and>
   derive_key demo_library demo_engine ''/home/a''
     = (Inr (replicate 32 3), demo_engine\<lparr>key_cache := [''/home/a'' \<mapsto> replicate 32 3]\<rparr>) \<and>
   gcm_decrypt demo_library (replicate 32 3) [0, 1, 2, 3, 4, 5, 6, 7, 8, 9, 10, 11] [2, 3, 4]
     [3, 3, 4, 0, 1, 2, 3, 4, 5, 6, 7, 8, 9, 10, 11, 0] = Inl mac_check_failed \<and>
   ''/home/a'' \<noteq> CONFIG_logfile \<and>
   decrypt_file_try demo_library ''/home/a'' (demo_engine, tampered_world)
     = (Some mac_check_failed, demo_engine\<lparr>key_cache := [''/home/a'' \<mapsto> replicate 32 3]\<rparr>,
        tampered_world) \<and>
   logged (snd (decrypt_file demo_library ''/home/a'' (demo_engine, tampered_world)))
     = logged tampered_world @ [(ERROR, ''Failed '' @ ''/home/a'' @ '': MAC check failed'')] \<and>
   files (snd (decrypt_file demo_library ''/home/a'' (demo_engine, tampered_world))) ''/home/a''
     = Some (File tampered_container 420) \<and>
   log_linked tampered_world \<and>
   files tampered_world CONFIG_logfile = Some (File [] 420) \<and>
   files (snd (decrypt_file demo_library ''/home/a'' (demo_engine, tampered_world))) CONFIG_logfile
     = Some (File (fs_bytes (''2026-11-03 14:00:00,000 - ERROR - Failed /home/a: MAC check failed''
                    @ [CHR 0x0A])) 420)"
proof -
  have nf: "\<not> faulty tampered_world Read ''/home/a''"
    by (simp add: tampered_world_def demo_world_def)
  have en: "demo_encrypt (replicate 32 3) [0, 1, 2, 3, 4, 5, 6, 7, 8, 9, 10, 11] [1, 2, 3]
     = Inr ([2, 3, 4], [2, 3, 4, 0, 1, 2, 3, 4, 5, 6, 7, 8, 9, 10, 11, 0])"
    by (simp add: demo_encrypt_def demo_tag_def)
  have f: "files tampered_world ''/home/a'' = Some (File tampered_container 420)"
    by (simp add: tampered_world_def)
  have dk: "derive_key demo_library demo_engine ''/home/a''
     = (Inr (replicate 32 3), demo_engine\<lparr>key_cache := [''/home/a'' \<mapsto> replicate 32 3]\<rparr>)"
    by (simp add: demo_derive_key demo_valid)
  have ne: "''/home/a'' \<noteq> CONFIG_logfile" by (simp add: CONFIG_logfile_def)
  note th = decrypt_tag_mismatch_untouched [OF nf f tampered_read dk tampered_rejected]
  have a: "decrypt_file_try demo_library ''/home/a'' (demo_engine, tampered_world)
     = (Some mac_check_failed, demo_engine\<lparr>key_cache := [''/home/a'' \<mapsto> replicate 32 3]\<rparr>,
        tampered_world)"
    using th by blast
  have b: "logged (snd (decrypt_file demo_library ''/home/a'' (demo_engine, tampered_world)))
     = logged tampered_world @ [(ERROR, ''Failed '' @ ''/home/a'' @ '': MAC check failed'')]"
    using th by blast
  have c: "files (snd (decrypt_file demo_library ''/home/a'' (demo_engine, tampered_world))) ''/home/a''
     = Some (File tampered_container 420)"
    using th ne by blast
  have ll: "log_linked tampered_world" by (simp add: tampered_world_def demo_world_def)
  have fl: "files tampered_world CONFIG_logfile = Some (File [] 420)"
    by (simp add: tampered_world_def demo_world_def CONFIG_logfile_def)
  have lg: "logged tampered_world = []" by (simp add: tampered_world_def demo_world_def)
  have at: "asctime tampered_world 0 = ''2026-11-03 14:00:00,000''"
    by (simp add: tampered_world_def demo_world_def)
  have se: "stream_encode tampered_world = fs_bytes"
    by (simp add: tampered_world_def demo_world_def)
  have "files (snd (decrypt_file demo_library ''/home/a'' (demo_engine, tampered_world)))
        CONFIG_logfile
     = Some (File ([] @ stream_encode tampered_world
          (format_record (asctime tampered_world (length (logged tampered_world))) ERROR
             (''Failed '' @ ''/home/a'' @ '': MAC check failed'') @ [CHR 0x0A])) 420)"
    using th ll fl by blast
  then have d: "files (snd (decrypt_file demo_library ''/home/a'' (demo_engine, tampered_world)))
        CONFIG_logfile
     = Some (File (fs_bytes (''2026-11-03 14:00:00,000 - ERROR - Failed /home/a: MAC check failed''
                    @ [CHR 0x0A])) 420)"
    by (simp add: lg at se format_record_def levelname_def)
  show ?thesis
    using nf en f tampered_read dk tampered_rejected ne a b c ll fl d by (intro conjI)
qed

text \<open>
  C4 as stated fails at the log file itself, which lies under the walked root \<open>/var\<close>
  and which \<open>should_encrypt\<close> accepts. With the tampered container as its content,
  \<open>decrypt_file\<close> fails at the tag and the file at the original path is not what it was:
  the error line has been appended to it.
\<close>

theorem failed_decrypt_changes_the_log_file:
  "files logfile_world CONFIG_logfile = Some (File tampered_container 420) \<and>
   gcm_decrypt demo_library (replicate 32 3) [0, 1, 2, 3, 4, 5, 6, 7, 8, 9, 10, 11] [2, 3, 4]
     [3, 3, 4, 0, 1, 2, 3, 4, 5, 6, 7, 8, 9, 10, 11, 0] = Inl mac_check_failed \<and>
   decrypt_file_try demo_library CONFIG_logfile (demo_engine, logfile_world)
     = (Some mac_check_failed,
        demo_engine\<lparr>key_cache := [CONFIG_logfile \<mapsto> replicate 32 3]\<rparr>, logfile_world) \<and>
   files (snd (decrypt_file demo_library CONFIG_logfile (demo_engine, logfile_world))) CONFIG_logfile
     = Some (File (tampered_container @
          fs_bytes (''2026-11-03 14:00:00,000 - ERROR - Failed /var/log/autocrypt.log: MAC check failed''
                    @ [CHR 0x0A])) 420) \<and>
   files (snd (decrypt_file demo_library CONFIG_logfile (demo_engine, logfile_world))) CONFIG_logfile
     \<noteq> files logfile_world CONFIG_logfile"
proof -
  have f: "files logfile_world CONFIG_logfile = Some (File tampered_container 420)"
    by (simp add: logfile_world_def)
  have nf: "\<not> faulty logfile_world Read CONFIG_logfile"
    by (simp add: logfile_world_def demo_world_def)
  have dk: "derive_key demo_library demo_engine CONFIG_logfile
     = (Inr (replicate 32 3), demo_engine\<lparr>key_cache := [CONFIG_logfile \<mapsto> replicate 32 3]\<rparr>)"
    by (simp add: demo_derive_key demo_valid)
  have t: "decrypt_file_try demo_library CONFIG_logfile (demo_engine, logfile_world)
     = (Some mac_check_failed,
        demo_engine\<lparr>key_cache := [CONFIG_logfile \<mapsto> replicate 32 3]\<rparr>, logfile_world)"
    using f nf tampered_read dk tampered_rejected
    by (simp add: decrypt_file_try_def open_rb_def algo_gcm)
  have ll: "log_linked logfile_world" by (simp add: logfile_world_def demo_world_def)
  have lg: "logged logfile_world = []" by (simp add: logfile_world_def demo_world_def)
  have at: "asctime logfile_world 0 = ''2026-11-03 14:00:00,000''"
    by (simp add: logfile_world_def demo_world_def)
  have se: "stream_encode logfile_world = fs_bytes"
    by (simp add: logfile_world_def demo_world_def)
  have r: "files (snd (decrypt_file demo_library CONFIG_logfile (demo_engine, logfile_world)))
        CONFIG_logfile
     = Some (File (tampered_container @
          fs_bytes (''2026-11-03 14:00:00,000 - ERROR - Failed /var/log/autocrypt.log: MAC check failed''
                    @ [CHR 0x0A])) 420)"
    by (simp add: decrypt_file_def t logging_error_def emit_files_linked [OF ll f] lg at se
        format_record_def levelname_def str_error_def mac_check_failed_def)
       (simp add: CONFIG_logfile_def)
  have "tampered_container @
          fs_bytes (''2026-11-03 14:00:00,000 - ERROR - Failed /var/log/autocrypt.log: MAC check failed''
                    @ [CHR 0x0A]) \<noteq> tampered_container"
    by (simp add: fs_bytes_def)
  with r f have d: "files (snd (decrypt_file demo_library CONFIG_logfile (demo_engine, logfile_world)))
      CONFIG_logfile \<noteq> files logfile_world CONFIG_logfile"
    by simp
  show ?thesis using f tampered_rejected t r d by (intro conjI)
qed

text \<open>
  C5, amended. \<open>decrypt_file\<close> checks no length. It reads at most 12 bytes as nonce, at
  most 16 more as tag and the rest as ciphertext. From 28 bytes on that is the split the
  specification describes: 12, 16 and the remainder, which together are the input. Below
  28 bytes the ciphertext is empty, the tag has fewer than 16 bytes, and nonce and tag
  share the input between them. In both cases the three parts go to the cipher. An error
  of the cipher is the error of the \<open>try\<close> block, with the world unchanged, and
  \<open>decrypt_file\<close> logs it as \<open>Failed\<close>; data that the cipher returns replaces the content
  of the file, and \<open>Decrypted\<close> is logged. With a cipher that rejects every tag that is
  not 16 bytes long, as AES-GCM does, every readable container below 28 bytes is
  rejected: the \<open>try\<close> block ends with an error and the world unchanged, the error is the
  cipher's \<open>ValueError\<close> whenever a key could be derived, \<open>decrypt_file\<close> logs it as
  \<open>Failed\<close>, and every file other than the log file is as before.
\<close>

theorem read_container_no_length_check:
  "read_container c = (take 12 c, take 16 (drop 12 c), drop 28 c) \<and>
   (28 \<le> length c \<longrightarrow>
      spec_decode c = Inr (read_container c) \<and>
      length (take 12 c) = 12 \<and> length (take 16 (drop 12 c)) = 16 \<and>
      take 12 c @ take 16 (drop 12 c) @ drop 28 c = c) \<and>
   (length c < 28 \<longrightarrow>
      drop 28 c = [] \<and> length (take 16 (drop 12 c)) < 16 \<and>
      length (take 12 c) + length (take 16 (drop 12 c)) = length c) \<and>
   (files w p = Some (File c md) \<and> \<not> faulty w Read p \<and>
    derive_key lib self p = (Inr key, self1) \<and>
    gcm_decrypt lib key (take 12 c) (drop 28 c) (take 16 (drop 12 c)) = Inl e \<longrightarrow>
      decrypt_file_try lib p (self, w) = (Some e, self1, w) \<and>
      decrypt_file lib p (self, w)
        = (self1, logging_error w (''Failed '' @ p @ '': '' @ str_error e))) \<and>
   (files w p = Some (File c md) \<and> fault_free w \<and>
    derive_key lib self p = (Inr key, self1) \<and>
    gcm_decrypt lib key (take 12 c) (drop 28 c) (take 16 (drop 12 c)) = Inr data \<and>
    files w (p @ ''.dec'') \<noteq> Some Dir \<longrightarrow>
      (\<exists>md'. files (snd (decrypt_file lib p (self, w))) p = Some (File data md')) \<and>
      logged (snd (decrypt_file lib p (self, w))) = logged w @ [(INFO, ''Decrypted '' @ p)]) \<and>
   (files w p = Some (File c md) \<and> \<not> faulty w Read p \<and> length c < 28 \<and> tag16 lib \<longrightarrow>
      (\<exists>e self'.
         decrypt_file_try lib p (self, w) = (Some e, self', w) \<and>
         (\<forall>key self1. derive_key lib self p = (Inr key, self1) \<longrightarrow>
            gcm_decrypt lib key (take 12 c) (drop 28 c) (take 16 (drop 12 c)) = Inl e \<and>
            (\<exists>msg. e = ValueError msg)) \<and>
         decrypt_file lib p (self, w)
           = (self', logging_error w (''Failed '' @ p @ '': '' @ str_error e)) \<and>
         logged (snd (decrypt_file lib p (self, w)))
           = logged w @ [(ERROR, ''Failed '' @ p @ '': '' @ str_error e)] \<and>
         (\<forall>q. q \<noteq> CONFIG_logfile \<longrightarrow> files (snd (decrypt_file lib p (self, w))) q = files w q)))"
proof -
  have a: "read_container c = (take 12 c, take 16 (drop 12 c), drop 28 c)"
    by (rule read_container_eq)
  have j: "take 12 c @ take 16 (drop 12 c) @ drop 28 c = c"
  proof -
    have "take 16 (drop 12 c) @ drop 16 (drop 12 c) = drop 12 c" by (rule append_take_drop_id)
    then have "take 16 (drop 12 c) @ drop 28 c = drop 12 c" by simp
    then show ?thesis by simp
  qed
  have b: "28 \<le> length c \<longrightarrow>
      spec_decode c = Inr (read_container c) \<and>
      length (take 12 c) = 12 \<and> length (take 16 (drop 12 c)) = 16 \<and>
      take 12 c @ take 16 (drop 12 c) @ drop 28 c = c"
    using j by (auto simp add: spec_decode_def a)
  have d: "length c < 28 \<longrightarrow>
      drop 28 c = [] \<and> length (take 16 (drop 12 c)) < 16 \<and>
      length (take 12 c) + length (take 16 (drop 12 c)) = length c"
    by auto
  have e: "files w p = Some (File c md) \<and> \<not> faulty w Read p \<and>
    derive_key lib self p = (Inr key, self1) \<and>
    gcm_decrypt lib key (take 12 c) (drop 28 c) (take 16 (drop 12 c)) = Inl e \<longrightarrow>
      decrypt_file_try lib p (self, w) = (Some e, self1, w) \<and>
      decrypt_file lib p (self, w)
        = (self1, logging_error w (''Failed '' @ p @ '': '' @ str_error e))"
    using decrypt_file_cipher_error[of w p c md lib self key self1 e] by blast
  have g: "files w p = Some (File c md) \<and> fault_free w \<and>
    derive_key lib self p = (Inr key, self1) \<and>
    gcm_decrypt lib key (take 12 c) (drop 28 c) (take 16 (drop 12 c)) = Inr data \<and>
    files w (p @ ''.dec'') \<noteq> Some Dir \<longrightarrow>
      (\<exists>md'. files (snd (decrypt_file lib p (self, w))) p = Some (File data md')) \<and>
      logged (snd (decrypt_file lib p (self, w))) = logged w @ [(INFO, ''Decrypted '' @ p)]"
  proof
    assume h: "files w p = Some (File c md) \<and> fault_free w \<and>
      derive_key lib self p = (Inr key, self1) \<and>
      gcm_decrypt lib key (take 12 c) (drop 28 c) (take 16 (drop 12 c)) = Inr data \<and>
      files w (p @ ''.dec'') \<noteq> Some Dir"
    from decrypt_file_success[of w p c md "take 12 c" "take 16 (drop 12 c)" "drop 28 c"
        lib self key self1 data] h a
    show "(\<exists>md'. files (snd (decrypt_file lib p (self, w))) p = Some (File data md')) \<and>
      logged (snd (decrypt_file lib p (self, w))) = logged w @ [(INFO, ''Decrypted '' @ p)]"
      by blast
  qed
  have s: "files w p = Some (File c md) \<and> \<not> faulty w Read p \<and> length c < 28 \<and> tag16 lib \<longrightarrow>
      (\<exists>e self'.
         decrypt_file_try lib p (self, w) = (Some e, self', w) \<and>
         (\<forall>key self1. derive_key lib self p = (Inr key, self1) \<longrightarrow>
            gcm_decrypt lib key (take 12 c) (drop 28 c) (take 16 (drop 12 c)) = Inl e \<and>
            (\<exists>msg. e = ValueError msg)) \<and>
         decrypt_file lib p (self, w)
           = (self', logging_error w (''Failed '' @ p @ '': '' @ str_error e)) \<and>
         logged (snd (decrypt_file lib p (self, w)))
           = logged w @ [(ERROR, ''Failed '' @ p @ '': '' @ str_error e)] \<and>
         (\<forall>q. q \<noteq> CONFIG_logfile \<longrightarrow> files (snd (decrypt_file lib p (self, w))) q = files w q))"
  proof
    assume h: "files w p = Some (File c md) \<and> \<not> faulty w Read p \<and> length c < 28 \<and> tag16 lib"
    then have h1: "files w p = Some (File c md)" and h2: "\<not> faulty w Read p"
      and h3: "length c < 28" and h4: "tag16 lib" by simp_all
    from short_container_rejected[OF h1 h2 h3 h4, of self] obtain err eng where
      t: "decrypt_file_try lib p (self, w) = (Some err, eng, w)"
      and ce: "\<forall>key self1. derive_key lib self p = (Inr key, self1) \<longrightarrow>
              gcm_decrypt lib key (take 12 c) (drop 28 c) (take 16 (drop 12 c)) = Inl err \<and>
              (\<exists>msg. err = ValueError msg)"
      by (elim exE conjE)
    have r: "decrypt_file lib p (self, w)
           = (eng, logging_error w (''Failed '' @ p @ '': '' @ str_error err))"
      by (simp add: decrypt_file_def t)
    have l: "logged (snd (decrypt_file lib p (self, w)))
           = logged w @ [(ERROR, ''Failed '' @ p @ '': '' @ str_error err)]"
      by (simp add: r logging_error_def emit_logged)
    have fr: "\<forall>q. q \<noteq> CONFIG_logfile \<longrightarrow> files (snd (decrypt_file lib p (self, w))) q = files w q"
      by (simp add: r logging_error_def emit_files_other)
    show "\<exists>e self'.
         decrypt_file_try lib p (self, w) = (Some e, self', w) \<and>
         (\<forall>key self1. derive_key lib self p = (Inr key, self1) \<longrightarrow>
            gcm_decrypt lib key (take 12 c) (drop 28 c) (take 16 (drop 12 c)) = Inl e \<and>
            (\<exists>msg. e = ValueError msg)) \<and>
         decrypt_file lib p (self, w)
           = (self', logging_error w (''Failed '' @ p @ '': '' @ str_error e)) \<and>
         logged (snd (decrypt_file lib p (self, w)))
           = logged w @ [(ERROR, ''Failed '' @ p @ '': '' @ str_error e)] \<and>
         (\<forall>q. q \<noteq> CONFIG_logfile \<longrightarrow> files (snd (decrypt_file lib p (self, w))) q = files w q)"
      apply (rule exI[of _ err], rule exI[of _ eng])
      using t ce r l fr by (intro conjI)
  qed
  show ?thesis using a b d e g s by (intro conjI)
qed

text \<open>
  C5, amended, at a container of 31 bytes, at the 27 bytes of \<open>/home/b\<close>, which the demo
  cipher rejects, and at the container of \<open>/home/a\<close>, which it decrypts.
\<close>

theorem read_container_no_length_check_witness:
  "28 \<le> length tampered_container \<and>
   spec_decode tampered_container = Inr (read_container tampered_container) \<and>
   read_container tampered_container
     = ([0, 1, 2, 3, 4, 5, 6, 7, 8, 9, 10, 11],
        [3, 3, 4, 0, 1, 2, 3, 4, 5, 6, 7, 8, 9, 10, 11, 0], [2, 3, 4]) \<and>
   length (replicate 27 (0::byte)) < 28 \<and>
   read_container (replicate 27 0) = (replicate 12 0, replicate 15 0, []) \<and>
   length (take 16 (drop 12 (replicate 27 (0::byte)))) < 16 \<and>
   files demo_world ''/home/b'' = Some (File (replicate 27 0) 420) \<and>
   \<not> faulty demo_world Read ''/home/b'' \<and>
   tag16 demo_library \<and>
   derive_key demo_library demo_engine ''/home/b''
     = (Inr (replicate 32 3), demo_engine\<lparr>key_cache := [''/home/b'' \<mapsto> replicate 32 3]\<rparr>) \<and>
   gcm_decrypt demo_library (replicate 32 3) (take 12 (replicate 27 0)) (drop 28 (replicate 27 0))
       (take 16 (drop 12 (replicate 27 0)))
     = Inl (ValueError ''MAC check failed'') \<and>
   decrypt_file_try demo_library ''/home/b'' (demo_engine, demo_world)
     = (Some (ValueError ''MAC check failed''),
        demo_engine\<lparr>key_cache := [''/home/b'' \<mapsto> replicate 32 3]\<rparr>, demo_world) \<and>
   decrypt_file demo_library ''/home/b'' (demo_engine, demo_world)
     = (demo_engine\<lparr>key_cache := [''/home/b'' \<mapsto> replicate 32 3]\<rparr>,
        logging_error demo_world (''Failed '' @ ''/home/b'' @ '': '' @
          str_error (ValueError ''MAC check failed''))) \<and>
   files (snd (decrypt_file demo_library ''/home/b'' (demo_engine, demo_world))) ''/home/b''
     = Some (File (replicate 27 0) 420) \<and>
   files container_world ''/home/a'' = Some (File good_container 420) \<and>
   fault_free container_world \<and>
   files container_world (''/home/a'' @ ''.dec'') \<noteq> Some Dir \<and>
   gcm_decrypt demo_library (replicate 32 3) (take 12 good_container) (drop 28 good_container)
       (take 16 (drop 12 good_container))
     = Inr [1, 2, 3] \<and>
   (\<exists>md'. files (snd (decrypt_file demo_library ''/home/a'' (demo_engine, container_world))) ''/home/a''
      = Some (File [1, 2, 3] md')) \<and>
   logged (snd (decrypt_file demo_library ''/home/a'' (demo_engine, container_world)))
     = [(INFO, ''Decrypted /home/a'')]"
proof -
  note th1 = read_container_no_length_check [of tampered_container]
  note th2 = read_container_no_length_check
    [of "replicate 27 0" demo_world "''/home/b''" 420 demo_library demo_engine "replicate 32 3"
        "demo_engine\<lparr>key_cache := [''/home/b'' \<mapsto> replicate 32 3]\<rparr>"
        "ValueError ''MAC check failed''"]
  note th3 = read_container_no_length_check
    [of good_container container_world "''/home/a''" 420 demo_library demo_engine "replicate 32 3"
        "demo_engine\<lparr>key_cache := [''/home/a'' \<mapsto> replicate 32 3]\<rparr>" _ "[1, 2, 3]"]
  have a1: "28 \<le> length tampered_container" by (simp add: tampered_container_def)
  have a2: "spec_decode tampered_container = Inr (read_container tampered_container)"
    using th1 a1 by blast
  have a3: "read_container tampered_container
     = ([0, 1, 2, 3, 4, 5, 6, 7, 8, 9, 10, 11],
        [3, 3, 4, 0, 1, 2, 3, 4, 5, 6, 7, 8, 9, 10, 11, 0], [2, 3, 4])"
    by (rule tampered_read)
  have b1: "length (replicate 27 (0::byte)) < 28" by simp
  have b2: "read_container (replicate 27 0)
      = (take 12 (replicate 27 0), take 16 (drop 12 (replicate 27 0)), drop 28 (replicate 27 0))"
    using th2 by blast
  have b2': "read_container (replicate 27 0) = (replicate 12 0, replicate 15 0, [])"
    using b2 unfolding short_parts .
  have b3: "length (take 16 (drop 12 (replicate 27 (0::byte)))) < 16"
    using th2 b1 by blast
  have f: "files demo_world ''/home/b'' = Some (File (replicate 27 0) 420)"
    by (simp add: demo_world_def)
  have nf: "\<not> faulty demo_world Read ''/home/b''" by (simp add: demo_world_def)
  have dk: "derive_key demo_library demo_engine ''/home/b''
     = (Inr (replicate 32 3), demo_engine\<lparr>key_cache := [''/home/b'' \<mapsto> replicate 32 3]\<rparr>)"
    by (simp add: demo_derive_key demo_valid)
  have g: "gcm_decrypt demo_library (replicate 32 3) (take 12 (replicate 27 0))
      (drop 28 (replicate 27 0)) (take 16 (drop 12 (replicate 27 0)))
      = Inl (ValueError ''MAC check failed'')"
    unfolding short_parts by (rule short_rejected)
  have t: "decrypt_file_try demo_library ''/home/b'' (demo_engine, demo_world)
     = (Some (ValueError ''MAC check failed''),
        demo_engine\<lparr>key_cache := [''/home/b'' \<mapsto> replicate 32 3]\<rparr>, demo_world)"
    using th2 f nf dk g by blast
  have r: "decrypt_file demo_library ''/home/b'' (demo_engine, demo_world)
     = (demo_engine\<lparr>key_cache := [''/home/b'' \<mapsto> replicate 32 3]\<rparr>,
        logging_error demo_world (''Failed '' @ ''/home/b'' @ '': '' @
          str_error (ValueError ''MAC check failed'')))"
    using th2 f nf dk g by blast
  have ne: "''/home/b'' \<noteq> CONFIG_logfile" by (simp add: CONFIG_logfile_def)
  have "\<forall>q. q \<noteq> CONFIG_logfile \<longrightarrow>
      files (snd (decrypt_file demo_library ''/home/b'' (demo_engine, demo_world))) q
        = files demo_world q"
    using th2 f nf b1 demo_tag16 by blast
  with ne f have u: "files (snd (decrypt_file demo_library ''/home/b'' (demo_engine, demo_world)))
      ''/home/b'' = Some (File (replicate 27 0) 420)"
    by simp
  have cf: "files container_world ''/home/a'' = Some (File good_container 420)"
    by (simp add: container_world_def)
  have cff: "fault_free container_world"
    by (simp add: fault_free_def container_world_def demo_world_def)
  have cd: "files container_world (''/home/a'' @ ''.dec'') \<noteq> Some Dir"
    by (simp add: container_world_def demo_world_def)
  have cdk: "derive_key demo_library demo_engine ''/home/a''
     = (Inr (replicate 32 3), demo_engine\<lparr>key_cache := [''/home/a'' \<mapsto> replicate 32 3]\<rparr>)"
    by (simp add: demo_derive_key demo_valid)
  have gp: "take 12 good_container = [0, 1, 2, 3, 4, 5, 6, 7, 8, 9, 10, 11]"
    "take 16 (drop 12 good_container) = [2, 3, 4, 0, 1, 2, 3, 4, 5, 6, 7, 8, 9, 10, 11, 0]"
    "drop 28 good_container = [2, 3, 4]"
    using good_read by (simp_all add: read_container_eq)
  have cg: "gcm_decrypt demo_library (replicate 32 3) (take 12 good_container)
      (drop 28 good_container) (take 16 (drop 12 good_container)) = Inr [1, 2, 3]"
    unfolding gp by (rule good_accepted)
  have clg: "logged container_world = []" by (simp add: container_world_def demo_world_def)
  have c1: "\<exists>md'. files (snd (decrypt_file demo_library ''/home/a'' (demo_engine, container_world)))
      ''/home/a'' = Some (File [1, 2, 3] md')"
    using th3 cf cff cdk cg cd by blast
  have "logged (snd (decrypt_file demo_library ''/home/a'' (demo_engine, container_world)))
     = logged container_world @ [(INFO, ''Decrypted '' @ ''/home/a'')]"
    using th3 cf cff cdk cg cd by blast
  then have c2: "logged (snd (decrypt_file demo_library ''/home/a'' (demo_engine, container_world)))
     = [(INFO, ''Decrypted /home/a'')]"
    by (simp add: clg)
  show ?thesis
    using a1 a2 a3 b1 b2' b3 f nf demo_tag16 dk g t r u cf cff cd cg c1 c2 by (intro conjI)
qed

text \<open>
  C5 as stated fails at a file of 27 bytes. The decoder of the specification rejects
  it as malformed; \<open>read_container\<close> returns a nonce of 12 bytes, a tag of 15 and no
  ciphertext, the key is derived, the cipher is called with these parts, and the error
  that \<open>decrypt_file\<close> logs is the cipher's failed tag check.
\<close>

theorem short_container_reaches_cipher:
  "length (replicate 27 (0::byte)) < 28 \<and>
   spec_decode (replicate 27 0) = Inl MalformedContainer \<and>
   read_container (replicate 27 0) = (replicate 12 0, replicate 15 0, []) \<and>
   files demo_world ''/home/b'' = Some (File (replicate 27 0) 420) \<and>
   derive_key demo_library demo_engine ''/home/b''
     = (Inr (replicate 32 3), demo_engine\<lparr>key_cache := [''/home/b'' \<mapsto> replicate 32 3]\<rparr>) \<and>
   gcm_decrypt demo_library (replicate 32 3) (replicate 12 0) [] (replicate 15 0)
     = Inl (ValueError ''MAC check failed'') \<and>
   decrypt_file_try demo_library ''/home/b'' (demo_engine, demo_world)
     = (Some (ValueError ''MAC check failed''),
        demo_engine\<lparr>key_cache := [''/home/b'' \<mapsto> replicate 32 3]\<rparr>, demo_world) \<and>
   logged (snd (decrypt_file demo_library ''/home/b'' (demo_engine, demo_world)))
     = [(ERROR, ''Failed /home/b: MAC check failed'')]"
proof -
  have rc: "read_container (replicate 27 0) = (replicate 12 0, replicate 15 0, [])"
    by (simp add: read_container_eq)
  have f: "files demo_world ''/home/b'' = Some (File (replicate 27 0) 420)"
    by (simp add: demo_world_def)
  have nf: "\<not> faulty demo_world Read ''/home/b''" by (simp add: demo_world_def)
  have lg: "logged demo_world = []" by (simp add: demo_world_def)
  have dk: "derive_key demo_library demo_engine ''/home/b''
     = (Inr (replicate 32 3), demo_engine\<lparr>key_cache := [''/home/b'' \<mapsto> replicate 32 3]\<rparr>)"
    by (simp add: demo_derive_key demo_valid)
  have g: "gcm_decrypt demo_library (replicate 32 3) (take 12 (replicate 27 0))
      (drop 28 (replicate 27 0)) (take 16 (drop 12 (replicate 27 0)))
      = Inl (ValueError ''MAC check failed'')"
    unfolding short_parts by (rule short_rejected)
  have t: "decrypt_file_try demo_library ''/home/b'' (demo_engine, demo_world)
     = (Some (ValueError ''MAC check failed''),
        demo_engine\<lparr>key_cache := [''/home/b'' \<mapsto> replicate 32 3]\<rparr>, demo_world)"
    by (rule decrypt_file_cipher_error(1)[OF f nf dk g])
  have l: "logged (snd (decrypt_file demo_library ''/home/b'' (demo_engine, demo_world)))
     = [(ERROR, ''Failed /home/b: MAC check failed'')]"
    by (simp add: decrypt_file_cipher_error(2)[OF f nf dk g] logging_error_def emit_logged lg
        str_error_def)
  have s: "spec_decode (replicate 27 0) = Inl MalformedContainer"
    by (simp add: spec_decode_def)
  have n: "length (replicate 27 (0::byte)) < 28" by simp
  show ?thesis using n s rc f dk short_rejected t l by (intro conjI)
qed

text \<open>
  C6. Under the assumptions of C1, for every content \<open>m\<close> of the file \<open>p\<close>,
  \<open>encrypt_file\<close> leaves at \<open>p\<close> the bytes nonce, tag, ciphertext in this order, where
  the nonce is the 12 bytes drawn from the random source, and tag (16 bytes) and
  ciphertext (as long as \<open>m\<close>) are what the cipher returned: 12 + 16 + length m bytes.
  For an empty file that is 28 bytes, and decrypting it gives the empty file back.
\<close>

theorem container_layout:
  assumes "library_ok lib" and "cache_inv lib self" and "fault_free w"
    and "files w p = Some (File m md)" and "files w (p @ ''.enc'') \<noteq> Some Dir"
    and "utf8_valid p"
  shows "\<exists>nonce tag ct md'.
           nonce = fst (get_random_bytes 12 w) \<and>
           gcm_encrypt lib (hmac_sha256 lib (master_key self) (sha256 lib (fs_bytes p))) nonce m
             = Inr (ct, tag) \<and>
           length nonce = 12 \<and> length tag = 16 \<and> length ct = length m \<and>
           files (snd (encrypt_file lib p (self, w))) p = Some (File (nonce @ tag @ ct) md') \<and>
           length (nonce @ tag @ ct) = 12 + 16 + length m \<and>
           (m = [] \<and> files w (p @ ''.dec'') \<noteq> Some Dir \<longrightarrow>
              length (nonce @ tag @ ct) = 28 \<and>
              (\<exists>md''. files (snd (decrypt_file lib p (encrypt_file lib p (self, w)))) p
                 = Some (File [] md'')))"
proof -
  from encrypt_file_success[OF assms] obtain ct tag md' where
    e: "gcm_encrypt lib (hmac_sha256 lib (master_key self) (sha256 lib (fs_bytes p)))
          (fst (get_random_bytes 12 w)) m = Inr (ct, tag)"
    and lc: "length ct = length m" and lt: "length tag = 16"
    and f: "files (snd (encrypt_file lib p (self, w))) p =
             Some (File (fst (get_random_bytes 12 w) @ tag @ ct) md')"
    by blast
  have rt: "m = [] \<and> files w (p @ ''.dec'') \<noteq> Some Dir \<longrightarrow>
        (\<exists>md''. files (snd (decrypt_file lib p (encrypt_file lib p (self, w)))) p
                 = Some (File [] md''))"
  proof
    assume h: "m = [] \<and> files w (p @ ''.dec'') \<noteq> Some Dir"
    let ?s1 = "encrypt_file lib p (self, w)"
    have "cache_inv lib (fst ?s1) \<and> master_key (fst ?s1) = master_key self"
      using assms by (rule encrypt_file_engine)
    with h roundtrip_files[OF assms(1-5) _ assms(6), of "fst ?s1"]
    obtain md'' where "files (snd (decrypt_file lib p (fst ?s1, snd ?s1))) p =
             Some (File m md'')"
      by blast
    then have "files (snd (decrypt_file lib p ?s1)) p = Some (File [] md'')"
      using h by simp
    then show "\<exists>md''. files (snd (decrypt_file lib p ?s1)) p = Some (File [] md'')"
      by blast
  qed
  show ?thesis
    apply (rule exI[of _ "fst (get_random_bytes 12 w)"])
    apply (rule exI[of _ tag], rule exI[of _ ct], rule exI[of _ md'])
    using e lc lt f rt by (simp add: get_random_bytes_length)
qed

text \<open>
  C6 at the empty file \<open>/home/e\<close> of the demo world.
\<close>

theorem container_layout_witness:
  "library_ok demo_library \<and> cache_inv demo_library demo_engine \<and> fault_free demo_world \<and>
   files demo_world ''/home/e'' = Some (File [] 420) \<and>
   files demo_world (''/home/e'' @ ''.enc'') \<noteq> Some Dir \<and>
   files demo_world (''/home/e'' @ ''.dec'') \<noteq> Some Dir \<and>
   utf8_valid ''/home/e'' \<and>
   (\<exists>nonce tag ct md' md''.
      length nonce = 12 \<and> length tag = 16 \<and> ct = [] \<and>
      files (snd (encrypt_file demo_library ''/home/e'' (demo_engine, demo_world))) ''/home/e''
        = Some (File (nonce @ tag @ ct) md') \<and>
      length (nonce @ tag @ ct) = 28 \<and>
      files (snd (decrypt_file demo_library ''/home/e''
                (encrypt_file demo_library ''/home/e'' (demo_engine, demo_world)))) ''/home/e''
        = Some (File [] md''))"
proof -
  have f: "files demo_world ''/home/e'' = Some (File [] 420)"
    by (simp add: demo_world_def)
  have e: "files demo_world (''/home/e'' @ ''.enc'') \<noteq> Some Dir"
    by (simp add: demo_world_def)
  have d: "files demo_world (''/home/e'' @ ''.dec'') \<noteq> Some Dir"
    by (simp add: demo_world_def)
  from container_layout [OF demo_library_ok demo_engine_inv demo_fault_free f e demo_valid(2)] d
  obtain nonce tag ct md' md'' where
    "length nonce = 12" "length tag = 16" "length ct = length ([]::bytes)"
    "files (snd (encrypt_file demo_library ''/home/e'' (demo_engine, demo_world))) ''/home/e''
        = Some (File (nonce @ tag @ ct) md')"
    "length (nonce @ tag @ ct) = 28"
    "files (snd (decrypt_file demo_library ''/home/e''
                (encrypt_file demo_library ''/home/e'' (demo_engine, demo_world)))) ''/home/e''
        = Some (File [] md'')"
    by auto
  then have "\<exists>nonce tag ct md' md''.
      length nonce = 12 \<and> length tag = 16 \<and> ct = [] \<and>
      files (snd (encrypt_file demo_library ''/home/e'' (demo_engine, demo_world))) ''/home/e''
        = Some (File (nonce @ tag @ ct) md') \<and>
      length (nonce @ tag @ ct) = 28 \<and>
      files (snd (decrypt_file demo_library ''/home/e''
                (encrypt_file demo_library ''/home/e'' (demo_engine, demo_world)))) ''/home/e''
        = Some (File [] md'')"
    by (intro exI[of _ nonce] exI[of _ tag] exI[of _ ct] exI[of _ md'] exI[of _ md'']) simp
  then show ?thesis
    using demo_library_ok demo_engine_inv demo_fault_free f e d demo_valid(2) by (intro conjI)
qed

text \<open>
  C7. \<open>should_encrypt\<close> is true exactly when no excluded prefix starts the path, no
  excluded suffix ends it, and the path is a regular file. So it is false for every
  path that continues an excluded prefix, false for a directory and false for a path
  that does not exist.
\<close>

theorem should_encrypt_policy:
  "should_encrypt w p =
     (\<not> (\<exists>ex \<in> set CONFIG_exclude. prefix ex p) \<and>
      \<not> (\<exists>ex \<in> set CONFIG_extensions. suffix ex p) \<and>
      (\<exists>d m. files w p = Some (File d m))) \<and>
   (ex \<in> set CONFIG_exclude \<longrightarrow> \<not> should_encrypt w (ex @ rest)) \<and>
   (files w p = Some Dir \<longrightarrow> \<not> should_encrypt w p) \<and>
   (files w p = None \<longrightarrow> \<not> should_encrypt w p)"
  by (auto simp add: should_encrypt_def os_path_isfile_def list_ex_iff
      split: option.splits node.splits)

text \<open>
  C7 at a regular file, a path under \<open>/proc/\<close> and a directory.
\<close>

theorem should_encrypt_policy_witness:
  "files demo_world ''/home/a'' = Some (File [1, 2, 3] 420) \<and>
   should_encrypt demo_world ''/home/a'' \<and>
   ''/proc/'' \<in> set CONFIG_exclude \<and>
   \<not> should_encrypt demo_world (''/proc/'' @ ''cpuinfo'') \<and>
   files demo_world ''/home/d'' = Some Dir \<and>
   \<not> should_encrypt demo_world ''/home/d''"
proof -
  have f: "files demo_world ''/home/a'' = Some (File [1, 2, 3] 420)"
    by (simp add: demo_world_def)
  have x: "''/proc/'' \<in> set CONFIG_exclude" by (simp add: CONFIG_exclude_def)
  have d: "files demo_world ''/home/d'' = Some Dir" by (simp add: demo_world_def)
  have p: "\<not> (\<exists>ex \<in> set CONFIG_exclude. prefix ex ''/home/a'')"
    by (simp add: CONFIG_exclude_def)
  have s: "\<not> (\<exists>ex \<in> set CONFIG_extensions. suffix ex ''/home/a'')"
    by (simp add: CONFIG_extensions_def suffix_def)
  have a: "should_encrypt demo_world ''/home/a''"
    using should_encrypt_policy [of demo_world "''/home/a''" "''/proc/''" "''cpuinfo''"] f p s
    by blast
  have b: "\<not> should_encrypt demo_world (''/proc/'' @ ''cpuinfo'')"
    using should_encrypt_policy [of demo_world "''/home/a''" "''/proc/''" "''cpuinfo''"] x
    by blast
  have c: "\<not> should_encrypt demo_world ''/home/d''"
    using should_encrypt_policy [of demo_world "''/home/d''" "''/proc/''" "''cpuinfo''"] d
    by blast
  show ?thesis using f a x b d c by (intro conjI)
qed

text \<open>
  C8. If the keystore file exists and can be read, \<open>_init_keystore\<close> returns the result
  of \<open>read(32)\<close>, 32 bytes when the file has that many, and changes nothing. If the file
  is absent and writing and \<open>chmod\<close> are not refused, it returns the 32 bytes it drew
  from the random source, the keystore then holds exactly these bytes with mode 0o600
  (384, no bit of 0o077 = 63 set), and a further call returns the same bytes.
\<close>

theorem keystore_load_or_create:
  "(files w CONFIG_keystore = Some (File d md) \<and> \<not> faulty w Read CONFIG_keystore \<longrightarrow>
      init_keystore w = (Inr (take 32 d), w) \<and>
      (32 \<le> length d \<longrightarrow> length (take 32 d) = 32)) \<and>
   (files w CONFIG_keystore = None \<and> \<not> faulty w Read CONFIG_keystore \<and>
    \<not> faulty w Write CONFIG_keystore \<and> \<not> faulty w Chmod CONFIG_keystore \<longrightarrow>
      (\<exists>key w'. init_keystore w = (Inr key, w') \<and> key = fst (get_random_bytes 32 w) \<and>
         length key = 32 \<and>
         files w' = (files w)(CONFIG_keystore \<mapsto> File key 384) \<and>
         (384 :: 32 word) AND 63 = 0 \<and>
         init_keystore w' = (Inr key, w')))"
  by (auto simp add: init_keystore_def open_rb_def open_wb_def os_chmod_def get_random_bytes_def
      is_FileNotFoundError_def FileNotFoundError_def)

text \<open>
  C8 at a world with a keystore of 40 bytes and at the demo world, which has none.
\<close>

theorem keystore_load_or_create_witness:
  "files long_keystore_world CONFIG_keystore = Some (File (replicate 40 9) 384) \<and>
   \<not> faulty long_keystore_world Read CONFIG_keystore \<and>
   init_keystore long_keystore_world = (Inr (replicate 32 9), long_keystore_world) \<and>
   files demo_world CONFIG_keystore = None \<and>
   \<not> faulty demo_world Read CONFIG_keystore \<and> \<not> faulty demo_world Write CONFIG_keystore \<and>
   \<not> faulty demo_world Chmod CONFIG_keystore \<and>
   (\<exists>key w'. init_keystore demo_world = (Inr key, w') \<and>
       key = fst (get_random_bytes 32 demo_world) \<and> length key = 32 \<and>
       files w' = (files demo_world)(CONFIG_keystore \<mapsto> File key 384) \<and>
       init_keystore w' = (Inr key, w'))"
proof -
  have f1: "files long_keystore_world CONFIG_keystore = Some (File (replicate 40 9) 384)"
    by (simp add: long_keystore_world_def)
  have n1: "\<not> faulty long_keystore_world Read CONFIG_keystore"
    by (simp add: long_keystore_world_def demo_world_def)
  have f2: "files demo_world CONFIG_keystore = None"
    by (simp add: demo_world_def CONFIG_keystore_def)
  have n2: "\<not> faulty demo_world op CONFIG_keystore" for op
    by (simp add: demo_world_def)
  have a: "init_keystore long_keystore_world = (Inr (replicate 32 9), long_keystore_world)"
    using keystore_load_or_create [of long_keystore_world "replicate 40 9" 384] f1 n1 by simp
  have b: "\<exists>key w'. init_keystore demo_world = (Inr key, w') \<and>
       key = fst (get_random_bytes 32 demo_world) \<and> length key = 32 \<and>
       files w' = (files demo_world)(CONFIG_keystore \<mapsto> File key 384) \<and>
       init_keystore w' = (Inr key, w')"
    using keystore_load_or_create [of demo_world] f2 n2 by blast
  show ?thesis using f1 n1 a f2 n2 b by (intro conjI)
qed

text \<open>
  C9. An exception that leaves the \<open>try\<close> block of \<open>encrypt_file\<close> or \<open>decrypt_file\<close> is
  caught: the function returns the state the block had reached, with the error record
  logged, an error naming the path and the exception's message. The log has that one
  record more, no file other than the log file has changed, and when the handler's file
  no longer has the log file's name the record is the only change of the world. And once
  the engine is built, \<open>process_filesystem\<close> returns normally, and the log has gained
  exactly one record for every path of the walk that \<open>should_encrypt\<close> accepts in the
  world at the start, in order: the success record or the error record of that path. The
  paths of the walk are distinct, as those of a directory tree are.
\<close>

theorem per_file_errors_caught:
  "(encrypt_file_try lib p s = (Some e, self1, w1) \<longrightarrow>
      encrypt_file lib p s
        = (self1, logging_error w1 (''Failed '' @ p @ '': '' @ str_error e)) \<and>
      logged (snd (encrypt_file lib p s))
        = logged w1 @ [(ERROR, ''Failed '' @ p @ '': '' @ str_error e)] \<and>
      (\<forall>q. q \<noteq> CONFIG_logfile \<longrightarrow> files (snd (encrypt_file lib p s)) q = files w1 q) \<and>
      (\<not> log_linked w1 \<longrightarrow>
         encrypt_file lib p s
           = (self1, w1\<lparr>logged := logged w1 @ [(ERROR, ''Failed '' @ p @ '': '' @ str_error e)]\<rparr>))) \<and>
   (decrypt_file_try lib p s = (Some e, self1, w1) \<longrightarrow>
      decrypt_file lib p s
        = (self1, logging_error w1 (''Failed '' @ p @ '': '' @ str_error e)) \<and>
      logged (snd (decrypt_file lib p s))
        = logged w1 @ [(ERROR, ''Failed '' @ p @ '': '' @ str_error e)] \<and>
      (\<forall>q. q \<noteq> CONFIG_logfile \<longrightarrow> files (snd (decrypt_file lib p s)) q = files w1 q) \<and>
      (\<not> log_linked w1 \<longrightarrow>
         decrypt_file lib p s
           = (self1, w1\<lparr>logged := logged w1 @ [(ERROR, ''Failed '' @ p @ '': '' @ str_error e)]\<rparr>))) \<and>
   (CryptoEngine w = (Inr crypto, w0) \<and> distinct (walk_paths (os_walk lib (files w0) root)) \<longrightarrow>
      fst (process_filesystem lib root w) = None \<and>
      (\<exists>rs. logged (snd (process_filesystem lib root w)) = logged w0 @ rs \<and>
         list_all2 (\<lambda>q r. r = (INFO, ''Encrypted '' @ q) \<or>
                       (\<exists>x. r = (ERROR, ''Failed '' @ q @ '': '' @ str_error x)))
           (filter (should_encrypt w0) (walk_paths (os_walk lib (files w0) root))) rs))"
proof -
  have o: "outcome = (\<lambda>q r. r = (INFO, ''Encrypted '' @ q) \<or>
                       (\<exists>x. r = (ERROR, ''Failed '' @ q @ '': '' @ str_error x)))"
    by (simp add: fun_eq_iff outcome_def)
  have u: "\<And>m. \<not> log_linked w1 \<Longrightarrow> logging_error w1 m = w1\<lparr>logged := logged w1 @ [(ERROR, m)]\<rparr>"
    by (simp add: logging_error_def emit_def Let_def)
  have a: "encrypt_file_try lib p s = (Some e, self1, w1) \<longrightarrow>
      encrypt_file lib p s
        = (self1, logging_error w1 (''Failed '' @ p @ '': '' @ str_error e)) \<and>
      logged (snd (encrypt_file lib p s))
        = logged w1 @ [(ERROR, ''Failed '' @ p @ '': '' @ str_error e)] \<and>
      (\<forall>q. q \<noteq> CONFIG_logfile \<longrightarrow> files (snd (encrypt_file lib p s)) q = files w1 q) \<and>
      (\<not> log_linked w1 \<longrightarrow>
         encrypt_file lib p s
           = (self1, w1\<lparr>logged := logged w1 @ [(ERROR, ''Failed '' @ p @ '': '' @ str_error e)]\<rparr>))"
  proof
    assume t: "encrypt_file_try lib p s = (Some e, self1, w1)"
    have r: "encrypt_file lib p s
        = (self1, logging_error w1 (''Failed '' @ p @ '': '' @ str_error e))"
      by (simp add: encrypt_file_def t)
    have l: "logged (snd (encrypt_file lib p s))
        = logged w1 @ [(ERROR, ''Failed '' @ p @ '': '' @ str_error e)]"
      by (simp add: r logging_error_def emit_logged)
    have f: "\<forall>q. q \<noteq> CONFIG_logfile \<longrightarrow> files (snd (encrypt_file lib p s)) q = files w1 q"
      by (simp add: r logging_error_def emit_files_other)
    have n: "\<not> log_linked w1 \<longrightarrow>
         encrypt_file lib p s
           = (self1, w1\<lparr>logged := logged w1 @ [(ERROR, ''Failed '' @ p @ '': '' @ str_error e)]\<rparr>)"
      by (simp add: r u)
    show "encrypt_file lib p s
        = (self1, logging_error w1 (''Failed '' @ p @ '': '' @ str_error e)) \<and>
      logged (snd (encrypt_file lib p s))
        = logged w1 @ [(ERROR, ''Failed '' @ p @ '': '' @ str_error e)] \<and>
      (\<forall>q. q \<noteq> CONFIG_logfile \<longrightarrow> files (snd (encrypt_file lib p s)) q = files w1 q) \<and>
      (\<not> log_linked w1 \<longrightarrow>
         encrypt_file lib p s
           = (self1, w1\<lparr>logged := logged w1 @ [(ERROR, ''Failed '' @ p @ '': '' @ str_error e)]\<rparr>))"
      using r l f n by (intro conjI)
  qed
  have b: "decrypt_file_try lib p s = (Some e, self1, w1) \<longrightarrow>
      decrypt_file lib p s
        = (self1, logging_error w1 (''Failed '' @ p @ '': '' @ str_error e)) \<and>
      logged (snd (decrypt_file lib p s))
        = logged w1 @ [(ERROR, ''Failed '' @ p @ '': '' @ str_error e)] \<and>
      (\<forall>q. q \<noteq> CONFIG_logfile \<longrightarrow> files (snd (decrypt_file lib p s)) q = files w1 q) \<and>
      (\<not> log_linked w1 \<longrightarrow>
         decrypt_file lib p s
           = (self1, w1\<lparr>logged := logged w1 @ [(ERROR, ''Failed '' @ p @ '': '' @ str_error e)]\<rparr>))"
  proof
    assume t: "decrypt_file_try lib p s = (Some e, self1, w1)"
    have r: "decrypt_file lib p s
        = (self1, logging_error w1 (''Failed '' @ p @ '': '' @ str_error e))"
      by (simp add: decrypt_file_def t)
    have l: "logged (snd (decrypt_file lib p s))
        = logged w1 @ [(ERROR, ''Failed '' @ p @ '': '' @ str_error e)]"
      by (simp add: r logging_error_def emit_logged)
    have f: "\<forall>q. q \<noteq> CONFIG_logfile \<longrightarrow> files (snd (decrypt_file lib p s)) q = files w1 q"
      by (simp add: r logging_error_def emit_files_other)
    have n: "\<not> log_linked w1 \<longrightarrow>
         decrypt_file lib p s
           = (self1, w1\<lparr>logged := logged w1 @ [(ERROR, ''Failed '' @ p @ '': '' @ str_error e)]\<rparr>)"
      by (simp add: r u)
    show "decrypt_file lib p s
        = (self1, logging_error w1 (''Failed '' @ p @ '': '' @ str_error e)) \<and>
      logged (snd (decrypt_file lib p s))
        = logged w1 @ [(ERROR, ''Failed '' @ p @ '': '' @ str_error e)] \<and>
      (\<forall>q. q \<noteq> CONFIG_logfile \<longrightarrow> files (snd (decrypt_file lib p s)) q = files w1 q) \<and>
      (\<not> log_linked w1 \<longrightarrow>
         decrypt_file lib p s
           = (self1, w1\<lparr>logged := logged w1 @ [(ERROR, ''Failed '' @ p @ '': '' @ str_error e)]\<rparr>))"
      using r l f n by (intro conjI)
  qed
  have c: "CryptoEngine w = (Inr crypto, w0) \<and> distinct (walk_paths (os_walk lib (files w0) root)) \<longrightarrow>
      fst (process_filesystem lib root w) = None \<and>
      (\<exists>rs. logged (snd (process_filesystem lib root w)) = logged w0 @ rs \<and>
         list_all2 outcome
           (filter (should_encrypt w0) (walk_paths (os_walk lib (files w0) root))) rs)"
    using fold_visit_logged[of "walk_paths (os_walk lib (files w0) root)" lib "(crypto, w0)"]
    by (auto simp add: process_filesystem_fold)
  show ?thesis using a b c unfolding o by (intro conjI)
qed

text \<open>
  C9 at a directory handed to both transforms, and at a walk over three files of which
  the second cannot be read: the third is still encrypted.
\<close>

theorem per_file_errors_caught_witness:
  "encrypt_file_try demo_library ''/home/d'' (demo_engine, demo_world)
     = (Some (IsADirectoryError ''/home/d''), demo_engine, demo_world) \<and>
   encrypt_file demo_library ''/home/d'' (demo_engine, demo_world)
     = (demo_engine, logging_error demo_world
          (''Failed '' @ ''/home/d'' @ '': '' @ str_error (IsADirectoryError ''/home/d''))) \<and>
   logged (snd (encrypt_file demo_library ''/home/d'' (demo_engine, demo_world)))
     = [(ERROR, ''Failed /home/d: [Errno 21] Is a directory: '' @ [CHR 0x27] @ ''/home/d'' @ [CHR 0x27])] \<and>
   files (snd (encrypt_file demo_library ''/home/d'' (demo_engine, demo_world))) ''/home/a''
     = Some (File [1, 2, 3] 420) \<and>
   decrypt_file_try demo_library ''/home/d'' (demo_engine, demo_world)
     = (Some (IsADirectoryError ''/home/d''), demo_engine, demo_world) \<and>
   decrypt_file demo_library ''/home/d'' (demo_engine, demo_world)
     = (demo_engine, logging_error demo_world
          (''Failed '' @ ''/home/d'' @ '': '' @ str_error (IsADirectoryError ''/home/d''))) \<and>
   logged (snd (decrypt_file demo_library ''/home/d'' (demo_engine, demo_world)))
     = [(ERROR, ''Failed /home/d: [Errno 21] Is a directory: '' @ [CHR 0x27] @ ''/home/d'' @ [CHR 0x27])] \<and>
   files (snd (decrypt_file demo_library ''/home/d'' (demo_engine, demo_world))) ''/home/a''
     = Some (File [1, 2, 3] 420) \<and>
   CryptoEngine faulty_world = (Inr demo_engine, faulty_world) \<and>
   distinct (walk_paths (os_walk demo_library (files faulty_world) ''/home'')) \<and>
   filter (should_encrypt faulty_world) (walk_paths (os_walk demo_library (files faulty_world) ''/home''))
     = [''/home/a'', ''/home/b'', ''/home/e''] \<and>
   fst (process_filesystem demo_library ''/home'' faulty_world) = None \<and>
   (\<exists>r1 r2 r3. logged (snd (process_filesystem demo_library ''/home'' faulty_world))
        = logged faulty_world @ [r1, r2, r3] \<and>
      outcome ''/home/a'' r1 \<and> outcome ''/home/b'' r2 \<and> outcome ''/home/e'' r3) \<and>
   logged (snd (process_filesystem demo_library ''/home'' faulty_world))
     = [(INFO, ''Encrypted /home/a''),
        (ERROR, ''Failed /home/b: [Errno 13] Permission denied: '' @ [CHR 0x27] @ ''/home/b'' @ [CHR 0x27]),
        (INFO, ''Encrypted /home/e'')]"
proof -
  have d: "files demo_world ''/home/d'' = Some Dir" by (simp add: demo_world_def)
  have nf: "\<not> faulty demo_world Read ''/home/d''" by (simp add: demo_world_def)
  have lg: "logged demo_world = []" by (simp add: demo_world_def)
  have fa: "files demo_world ''/home/a'' = Some (File [1, 2, 3] 420)" by (simp add: demo_world_def)
  have ne: "''/home/a'' \<noteq> CONFIG_logfile" by (simp add: CONFIG_logfile_def)
  have tx: "''Failed '' @ ''/home/d'' @ '': '' @ str_error (IsADirectoryError ''/home/d'')
      = ''Failed /home/d: [Errno 21] Is a directory: '' @ [CHR 0x27] @ ''/home/d'' @ [CHR 0x27]"
    by (simp add: str_error_def IsADirectoryError_def py_repr_def repr_point_def repr_char_def
        Let_def)
  have t1: "encrypt_file_try demo_library ''/home/d'' (demo_engine, demo_world)
     = (Some (IsADirectoryError ''/home/d''), demo_engine, demo_world)"
    using d nf by (simp add: encrypt_file_try_def open_rb_def)
  have t2: "decrypt_file_try demo_library ''/home/d'' (demo_engine, demo_world)
     = (Some (IsADirectoryError ''/home/d''), demo_engine, demo_world)"
    using d nf by (simp add: decrypt_file_try_def open_rb_def)
  have ds: "distinct (walk_paths (os_walk demo_library (files faulty_world) ''/home''))"
    by (simp add: demo_walk_paths)
  have fl: "filter (should_encrypt faulty_world)
      (walk_paths (os_walk demo_library (files faulty_world) ''/home''))
     = [''/home/a'', ''/home/b'', ''/home/e'']"
    by (simp add: demo_walk_paths should_encrypt_def os_path_isfile_def faulty_world_def
        short_keystore_world_def demo_world_def CONFIG_exclude_def CONFIG_extensions_def
        CONFIG_keystore_def suffix_def)
  note th = per_file_errors_caught
    [of demo_library "''/home/d''" "(demo_engine, demo_world)" "IsADirectoryError ''/home/d''"
        demo_engine demo_world faulty_world demo_engine faulty_world "''/home''"]
  have e1: "encrypt_file demo_library ''/home/d'' (demo_engine, demo_world)
     = (demo_engine, logging_error demo_world
          (''Failed '' @ ''/home/d'' @ '': '' @ str_error (IsADirectoryError ''/home/d'')))"
    using th t1 by blast
  have l1: "logged (snd (encrypt_file demo_library ''/home/d'' (demo_engine, demo_world)))
     = logged demo_world @
        [(ERROR, ''Failed '' @ ''/home/d'' @ '': '' @ str_error (IsADirectoryError ''/home/d''))]"
    using th t1 by blast
  have l1': "logged (snd (encrypt_file demo_library ''/home/d'' (demo_engine, demo_world)))
     = [(ERROR, ''Failed /home/d: [Errno 21] Is a directory: '' @ [CHR 0x27] @ ''/home/d'' @ [CHR 0x27])]"
    unfolding l1 tx lg by simp
  have f1: "files (snd (encrypt_file demo_library ''/home/d'' (demo_engine, demo_world))) ''/home/a''
     = files demo_world ''/home/a''"
    using th t1 ne by blast
  have e2: "decrypt_file demo_library ''/home/d'' (demo_engine, demo_world)
     = (demo_engine, logging_error demo_world
          (''Failed '' @ ''/home/d'' @ '': '' @ str_error (IsADirectoryError ''/home/d'')))"
    using th t2 by blast
  have l2: "logged (snd (decrypt_file demo_library ''/home/d'' (demo_engine, demo_world)))
     = logged demo_world @
        [(ERROR, ''Failed '' @ ''/home/d'' @ '': '' @ str_error (IsADirectoryError ''/home/d''))]"
    using th t2 by blast
  have l2': "logged (snd (decrypt_file demo_library ''/home/d'' (demo_engine, demo_world)))
     = [(ERROR, ''Failed /home/d: [Errno 21] Is a directory: '' @ [CHR 0x27] @ ''/home/d'' @ [CHR 0x27])]"
    unfolding l2 tx lg by simp
  have f2: "files (snd (decrypt_file demo_library ''/home/d'' (demo_engine, demo_world))) ''/home/a''
     = files demo_world ''/home/a''"
    using th t2 ne by blast
  from th faulty_engine ds have n: "fst (process_filesystem demo_library ''/home'' faulty_world) = None"
    by blast
  from th faulty_engine ds obtain rs where
    rs: "logged (snd (process_filesystem demo_library ''/home'' faulty_world)) = logged faulty_world @ rs"
    and la: "list_all2 outcome [''/home/a'', ''/home/b'', ''/home/e''] rs"
    unfolding fl outcome_def by blast
  from la obtain r1 r2 r3 where "rs = [r1, r2, r3]"
     "outcome ''/home/a'' r1" "outcome ''/home/b'' r2" "outcome ''/home/e'' r3"
    by (auto simp add: list_all2_Cons1)
  with rs have l: "\<exists>r1 r2 r3. logged (snd (process_filesystem demo_library ''/home'' faulty_world))
        = logged faulty_world @ [r1, r2, r3] \<and>
      outcome ''/home/a'' r1 \<and> outcome ''/home/b'' r2 \<and> outcome ''/home/e'' r3"
    by blast
  show ?thesis
    using t1 e1 l1' f1[unfolded fa] t2 e2 l2' f2[unfolded fa] faulty_engine ds fl n l faulty_run_log
    by (intro conjI)
qed

text \<open>
  C10. If the keystore file exists and can be read, \<open>_init_keystore\<close> returns its first
  \<open>min 32 (length d)\<close> bytes without any check, and the constructor builds an engine with
  that master key. A file shorter than 32 bytes, the empty one included, becomes the
  master key as it is.
\<close>

theorem keystore_short_accepted:
  assumes "files w CONFIG_keystore = Some (File d md)" and "\<not> faulty w Read CONFIG_keystore"
  shows "init_keystore w = (Inr (take 32 d), w) \<and>
         length (take 32 d) = min 32 (length d) \<and>
         CryptoEngine w = (Inr \<lparr>master_key = take 32 d, key_cache = Map.empty\<rparr>, w) \<and>
         (length d < 32 \<longrightarrow> CryptoEngine w = (Inr \<lparr>master_key = d, key_cache = Map.empty\<rparr>, w))"
  using assms
  by (auto simp add: init_keystore_def CryptoEngine_def open_rb_def min_def)

text \<open>
  C10 at a keystore of three bytes.
\<close>

theorem keystore_short_accepted_witness:
  "files short_keystore_world CONFIG_keystore = Some (File [7, 7, 7] 384) \<and>
   \<not> faulty short_keystore_world Read CONFIG_keystore \<and>
   length [7, 7, 7 :: byte] < 32 \<and>
   init_keystore short_keystore_world = (Inr [7, 7, 7], short_keystore_world) \<and>
   CryptoEngine short_keystore_world
     = (Inr \<lparr>master_key = [7, 7, 7], key_cache = Map.empty\<rparr>, short_keystore_world)"
proof -
  have f: "files short_keystore_world CONFIG_keystore = Some (File [7, 7, 7] 384)"
    by (simp add: short_keystore_world_def)
  have n: "\<not> faulty short_keystore_world Read CONFIG_keystore"
    by (simp add: short_keystore_world_def demo_world_def)
  show ?thesis
    using keystore_short_accepted [OF f n] f n by simp
qed

end
